theory Spec2Isabelle
  imports Main "HOL-Library.Word"
begin

section \<open>Bytes, strings and Python exceptions\<close>

type_synonym byte = "8 word"
type_synonym bytes = "byte list"

text \<open>
  A Python exception as a value: the class name, \<open>str(e)\<close> and \<open>__cause__\<close>
  (set by \<open>raise ... from e\<close>).
\<close>

datatype py_exception =
  PyException (exc_type: string) (exc_msg: string) (exc_cause: "py_exception option")

text \<open>
  \<open>isinstance(e, Exception)\<close>, by the class name. The classes of Python's built-in
  hierarchy that derive from \<open>BaseException\<close> and not from \<open>Exception\<close> are listed; a
  handler \<open>except Exception\<close> does not catch them. Every other class, the ones a library
  defines included, is taken to derive from \<open>Exception\<close>.
\<close>

definition base_exception_only :: "string list" where
  "base_exception_only =
     [''BaseException'', ''BaseExceptionGroup'', ''GeneratorExit'', ''KeyboardInterrupt'',
      ''SystemExit'', ''CancelledError'']"

definition is_Exception :: "py_exception \<Rightarrow> bool" where
  "is_Exception e \<longleftrightarrow> exc_type e \<notin> set base_exception_only"

definition ValueError :: "string \<Rightarrow> py_exception" where
  "ValueError msg = PyException ''ValueError'' msg None"

text \<open>Python slices \<open>b[i:j]\<close>, \<open>b[i:]\<close>, \<open>b[i:-k]\<close> and \<open>b[-k:]\<close> on bytes, for
  literal \<open>i \<le> j\<close> and \<open>k > 0\<close>: a slice never raises, it is cut to the data there is.\<close>

definition py_slice :: "nat \<Rightarrow> nat \<Rightarrow> 'a list \<Rightarrow> 'a list" where
  "py_slice i j xs = drop i (take j xs)"

definition py_slice_neg_stop :: "nat \<Rightarrow> nat \<Rightarrow> 'a list \<Rightarrow> 'a list" where
  "py_slice_neg_stop i k xs = drop i (take (length xs - k) xs)"

definition py_slice_neg_start :: "nat \<Rightarrow> 'a list \<Rightarrow> 'a list" where
  "py_slice_neg_start k xs = drop (length xs - k) xs"

text \<open>\<open>bytes.hex()\<close>: two lower-case hexadecimal digits per byte.\<close>

definition hex_digit :: "nat \<Rightarrow> char" where
  "hex_digit d = ''0123456789abcdef'' ! d"

definition bytes_hex :: "bytes \<Rightarrow> string" where
  "bytes_hex bs = concat (map (\<lambda>b. [hex_digit (unat b div 16), hex_digit (unat b mod 16)]) bs)"

text \<open>\<open>base64.b64encode(b).decode('ascii')\<close>: the standard alphabet, three bytes to four
  characters, padded with \<open>=\<close>.\<close>

definition b64_alphabet :: string where
  "b64_alphabet = ''ABCDEFGHIJKLMNOPQRSTUVWXYZabcdefghijklmnopqrstuvwxyz0123456789+/''"

definition b64_char :: "nat \<Rightarrow> char" where
  "b64_char i = b64_alphabet ! i"

fun b64encode :: "bytes \<Rightarrow> string" where
  "b64encode [] = []"
| "b64encode [a] =
     [b64_char (unat a div 4), b64_char (unat a mod 4 * 16), CHR ''='', CHR ''='']"
| "b64encode [a, b] =
     [b64_char (unat a div 4), b64_char (unat a mod 4 * 16 + unat b div 16),
      b64_char (unat b mod 16 * 4), CHR ''='']"
| "b64encode (a # b # c # rest) =
     [b64_char (unat a div 4), b64_char (unat a mod 4 * 16 + unat b div 16),
      b64_char (unat b mod 16 * 4 + unat c div 64), b64_char (unat c mod 64)]
     @ b64encode rest"

section \<open>Collaborators of \<open>bsv/encrypted_message.py\<close>\<close>

text \<open>The random source: an infinite tape of bytes.\<close>

type_synonym entropy = "nat \<Rightarrow> byte"

text \<open>
  Modelled from the spec: \<open>bsv.utils.randbytes\<close> is not among the sources. Section 5 of the
  specification has it draw from a process-wide secure random source, each draw
  independent. A draw of \<open>n\<close> bytes returns the next \<open>n\<close> bytes of the tape and the rest
  of the tape.
\<close>

definition randbytes :: "nat \<Rightarrow> entropy \<Rightarrow> bytes \<times> entropy" where
  "randbytes n g = (map g [0..<n], \<lambda>i. g (i + n))"

text \<open>
  The classes \<open>PrivateKey\<close> and \<open>PublicKey\<close> of \<open>bsv/keys.py\<close> and the cipher
  \<open>Cryptodome.Cipher.AES\<close> are not among the sources: the operations
  \<open>encrypted_message.py\<close> calls on them are parameters. \<open>'sk\<close> is the type of private
  keys, \<open>'pk\<close> of public keys. An operation that may raise returns \<open>Inl\<close> of the
  exception.
  \<^item> \<open>public_key\<close>: \<open>PrivateKey.public_key()\<close>;
  \<^item> \<open>serialize\<close>: \<open>PublicKey.serialize()\<close>; \<open>pk_hex\<close>: \<open>PublicKey.hex()\<close>;
  \<^item> \<open>PublicKey\<close>: the constructor \<open>PublicKey(data)\<close> from serialized bytes;
  \<^item> \<open>sk_derive_child\<close>: \<open>PrivateKey.derive_child(public_key, invoice_number)\<close>;
  \<^item> \<open>pk_derive_child\<close>: \<open>PublicKey.derive_child(private_key, invoice_number)\<close>;
  \<^item> \<open>sk_derive_shared_secret\<close>: \<open>PrivateKey.derive_shared_secret(public_key)\<close>;
  \<^item> \<open>pk_derive_shared_secret\<close>: \<open>PublicKey.derive_shared_secret(private_key)\<close>;
  \<^item> \<open>gcm_encrypt_and_digest key iv m\<close>:
    \<open>AES.new(key, AES.MODE_GCM, iv).encrypt_and_digest(m)\<close>, the pair of ciphertext and tag;
  \<^item> \<open>gcm_decrypt_and_verify key iv c t\<close>:
    \<open>AES.new(key, AES.MODE_GCM, iv).decrypt_and_verify(c, t)\<close>.
\<close>

record ('sk, 'pk) collaborators =
  public_key :: "'sk \<Rightarrow> 'pk"
  serialize :: "'pk \<Rightarrow> bytes"
  pk_hex :: "'pk \<Rightarrow> string"
  PublicKey :: "bytes \<Rightarrow> py_exception + 'pk"
  sk_derive_child :: "'sk \<Rightarrow> 'pk \<Rightarrow> string \<Rightarrow> py_exception + 'sk"
  pk_derive_child :: "'pk \<Rightarrow> 'sk \<Rightarrow> string \<Rightarrow> py_exception + 'pk"
  sk_derive_shared_secret :: "'sk \<Rightarrow> 'pk \<Rightarrow> py_exception + bytes"
  pk_derive_shared_secret :: "'pk \<Rightarrow> 'sk \<Rightarrow> py_exception + bytes"
  gcm_encrypt_and_digest :: "bytes \<Rightarrow> bytes \<Rightarrow> bytes \<Rightarrow> py_exception + bytes \<times> bytes"
  gcm_decrypt_and_verify :: "bytes \<Rightarrow> bytes \<Rightarrow> bytes \<Rightarrow> bytes \<Rightarrow> py_exception + bytes"

section \<open>\<open>bsv/encrypted_message.py\<close>\<close>

text \<open>\<open>aes_gcm_encrypt\<close> (lines 9 to 12). The IV is the next draw of 32 random bytes.\<close>

definition aes_gcm_encrypt ::
  "('sk, 'pk) collaborators \<Rightarrow> bytes \<Rightarrow> bytes \<Rightarrow> entropy \<Rightarrow> py_exception + bytes" where
  "aes_gcm_encrypt C key message g =
     (let (iv, g') = randbytes 32 g in
      case gcm_encrypt_and_digest C key iv message of
        Inl e \<Rightarrow> Inl e
      | Inr (encrypted, auth_tag) \<Rightarrow> Inr (iv @ encrypted @ auth_tag))"

text \<open>\<open>aes_gcm_decrypt\<close> (lines 15 to 17): \<open>message[:32]\<close>, \<open>message[32:-16]\<close>,
  \<open>message[-16:]\<close>.\<close>

definition aes_gcm_decrypt ::
  "('sk, 'pk) collaborators \<Rightarrow> bytes \<Rightarrow> bytes \<Rightarrow> py_exception + bytes" where
  "aes_gcm_decrypt C key message =
     (let iv = py_slice 0 32 message;
          encrypted = py_slice_neg_stop 32 16 message;
          auth_tag = py_slice_neg_start 16 message
      in gcm_decrypt_and_verify C key iv encrypted auth_tag)"

text \<open>\<open>VERSION = bytes.fromhex('42421033')\<close> (line 20).\<close>

definition VERSION :: bytes where
  "VERSION = [0x42, 0x42, 0x10, 0x33]"

text \<open>\<open>encrypt\<close> (lines 23 to 39). The key id is the first draw of 32 random bytes; the
  rest of the tape goes to \<open>aes_gcm_encrypt\<close>. \<open>shared_secret[1:]\<close> is \<open>drop 1\<close>.\<close>

definition encrypt ::
  "('sk, 'pk) collaborators \<Rightarrow> bytes \<Rightarrow> 'sk \<Rightarrow> 'pk \<Rightarrow> entropy \<Rightarrow> py_exception + bytes" where
  "encrypt C message sender recipient g =
     (let (key_id, g') = randbytes 32 g;
          key_id_base64 = b64encode key_id;
          invoice_number = ''2-message encryption-'' @ key_id_base64
      in
      case sk_derive_child C sender recipient invoice_number of
        Inl e \<Rightarrow> Inl e
      | Inr sender_child \<Rightarrow>
      (case pk_derive_child C recipient sender invoice_number of
        Inl e \<Rightarrow> Inl e
      | Inr recipient_child \<Rightarrow>
      (case sk_derive_shared_secret C sender_child recipient_child of
        Inl e \<Rightarrow> Inl e
      | Inr shared_secret \<Rightarrow>
      (let symmetric_key = drop 1 shared_secret in
       case aes_gcm_encrypt C symmetric_key message g' of
         Inl e \<Rightarrow> Inl e
       | Inr encrypted \<Rightarrow>
           Inr (VERSION @ serialize C (public_key C sender) @ serialize C recipient
                @ key_id @ encrypted)))))"

text \<open>The two exceptions the \<open>try\<close> block of \<open>decrypt\<close> raises itself (lines 55 and 59).\<close>

definition version_mismatch :: "bytes \<Rightarrow> py_exception" where
  "version_mismatch version =
     ValueError (''message version mismatch, expected '' @ bytes_hex VERSION
                 @ '' but got '' @ bytes_hex version)"

definition recipient_mismatch :: "string \<Rightarrow> bytes \<Rightarrow> py_exception" where
  "recipient_mismatch expected recipient_pubkey =
     ValueError (''recipient public key mismatch, expected '' @ expected
                 @ '' but got '' @ bytes_hex recipient_pubkey)"

text \<open>The body of the \<open>try\<close> block of \<open>decrypt\<close> (lines 50 to 67).\<close>

definition decrypt_body ::
  "('sk, 'pk) collaborators \<Rightarrow> bytes \<Rightarrow> 'sk \<Rightarrow> py_exception + bytes" where
  "decrypt_body C message recipient =
     (let version = py_slice 0 4 message;
          sender_pubkey = py_slice 4 37 message;
          recipient_pubkey = py_slice 37 70 message;
          key_id = py_slice 70 102 message;
          encrypted = drop 102 message
      in
      if version \<noteq> VERSION then
        Inl (version_mismatch version)
      else if recipient_pubkey \<noteq> serialize C (public_key C recipient) then
        Inl (recipient_mismatch (pk_hex C (public_key C recipient)) recipient_pubkey)
      else
        let key_id_base64 = b64encode key_id;
            invoice_number = ''2-message encryption-'' @ key_id_base64
        in
        case PublicKey C sender_pubkey of
          Inl e \<Rightarrow> Inl e
        | Inr sender \<Rightarrow>
        (case pk_derive_child C sender recipient invoice_number of
          Inl e \<Rightarrow> Inl e
        | Inr sender_child \<Rightarrow>
        (case sk_derive_child C recipient sender invoice_number of
          Inl e \<Rightarrow> Inl e
        | Inr recipient_child \<Rightarrow>
        (case pk_derive_shared_secret C sender_child recipient_child of
          Inl e \<Rightarrow> Inl e
        | Inr shared_secret \<Rightarrow>
        (let symmetric_key = drop 1 shared_secret in
         aes_gcm_decrypt C symmetric_key encrypted)))))"

text \<open>The handler (lines 68 and 69), as the exception that leaves \<open>decrypt\<close> when the
  body raises \<open>e\<close>:
  \<open>except Exception as e: raise ValueError(f'failed to decrypt message: {e}') from e\<close>.
  An exception that is not an instance of \<open>Exception\<close> is not caught and leaves
  \<open>decrypt\<close> as it is.\<close>

definition decrypt_failure :: "py_exception \<Rightarrow> py_exception" where
  "decrypt_failure e =
     (if is_Exception e then
        PyException ''ValueError'' (''failed to decrypt message: '' @ exc_msg e) (Some e)
      else e)"

text \<open>\<open>decrypt\<close> (lines 42 to 69): the body under the handler.\<close>

definition decrypt ::
  "('sk, 'pk) collaborators \<Rightarrow> bytes \<Rightarrow> 'sk \<Rightarrow> py_exception + bytes" where
  "decrypt C message recipient =
     (case decrypt_body C message recipient of
        Inl e \<Rightarrow> Inl (decrypt_failure e)
      | Inr plaintext \<Rightarrow> Inr plaintext)"

section \<open>What the specification says of the collaborators\<close>

text \<open>
  Sections 3 and 4.4 of the specification on \<open>bsv/keys.py\<close>, as a hypothesis on the
  parameters: a public key serializes to 33 bytes (compressed) and parses back from them;
  a child private key and the child public key derived for the same invoice number form
  a matching pair; and the two sides of an ECDH exchange compute the same 33-byte
  shared secret.
\<close>

definition key_agreement :: "('sk, 'pk) collaborators \<Rightarrow> bool" where
  "key_agreement C \<longleftrightarrow>
     (\<forall>P. length (serialize C P) = 33) \<and>
     (\<forall>P. PublicKey C (serialize C P) = Inr P) \<and>
     (\<forall>a b inv. \<exists>c. sk_derive_child C a (public_key C b) inv = Inr c
                  \<and> pk_derive_child C (public_key C a) b inv = Inr (public_key C c)) \<and>
     (\<forall>x y. \<exists>s. length s = 33
                  \<and> sk_derive_shared_secret C x (public_key C y) = Inr s
                  \<and> pk_derive_shared_secret C (public_key C x) y = Inr s)"

text \<open>
  Section 6 on the cipher (256-bit key, 128-bit tag), for one message \<open>m\<close>: under a
  32-byte key and a 32-byte IV, encryption returns a ciphertext as long as \<open>m\<close> and a
  16-byte tag, and decryption of that ciphertext with that tag returns \<open>m\<close>.
\<close>

definition aead_correct :: "('sk, 'pk) collaborators \<Rightarrow> bytes \<Rightarrow> bool" where
  "aead_correct C m \<longleftrightarrow>
     (\<forall>key iv. length key = 32 \<and> length iv = 32 \<longrightarrow>
        (\<exists>ct tag. gcm_encrypt_and_digest C key iv m = Inr (ct, tag)
                 \<and> length ct = length m \<and> length tag = 16
                 \<and> gcm_decrypt_and_verify C key iv ct tag = Inr m))"

section \<open>A small instance of the collaborators\<close>

text \<open>
  An instance to run the definitions on. Keys are bytes: the group is the integers
  modulo 256 under addition, with generator 3, so the public key of \<open>a\<close> is \<open>3 * a\<close>;
  a point serializes to 33 bytes. The cipher adds a key stream byte and tags with a
  checksum; like the real one it refuses a key of the wrong length, an empty nonce and a
  wrong tag.
\<close>

definition toy_point :: "byte \<Rightarrow> bytes" where
  "toy_point P = 2 # replicate 31 0 @ [P]"

definition toy_PublicKey :: "bytes \<Rightarrow> py_exception + byte" where
  "toy_PublicKey data =
     (if length data = 33 \<and> take 32 data = 2 # replicate 31 0 then Inr (last data)
      else Inl (ValueError ''invalid public key''))"

definition toy_offset :: "bytes \<Rightarrow> string \<Rightarrow> byte" where
  "toy_offset secret invoice_number = sum_list secret + of_nat (sum_list (map of_char invoice_number))"

definition toy_keystream :: "bytes \<Rightarrow> bytes \<Rightarrow> byte" where
  "toy_keystream key iv = sum_list key + sum_list iv"

definition toy_tag :: "bytes \<Rightarrow> bytes \<Rightarrow> bytes \<Rightarrow> bytes" where
  "toy_tag key iv ct = replicate 16 (toy_keystream key iv + sum_list ct)"

definition toy_encrypt_and_digest :: "bytes \<Rightarrow> bytes \<Rightarrow> bytes \<Rightarrow> py_exception + bytes \<times> bytes" where
  "toy_encrypt_and_digest key iv m =
     (if length key \<notin> {16, 24, 32} then Inl (ValueError ''Incorrect AES key length'')
      else if iv = [] then Inl (ValueError ''Nonce cannot be empty'')
      else let ct = map (\<lambda>x. x + toy_keystream key iv) m in Inr (ct, toy_tag key iv ct))"

definition toy_decrypt_and_verify :: "bytes \<Rightarrow> bytes \<Rightarrow> bytes \<Rightarrow> bytes \<Rightarrow> py_exception + bytes" where
  "toy_decrypt_and_verify key iv ct tag =
     (if length key \<notin> {16, 24, 32} then Inl (ValueError ''Incorrect AES key length'')
      else if iv = [] then Inl (ValueError ''Nonce cannot be empty'')
      else if tag \<noteq> toy_tag key iv ct then Inl (ValueError ''MAC check failed'')
      else Inr (map (\<lambda>x. x - toy_keystream key iv) ct))"

definition toy :: "(byte, byte) collaborators" where
  "toy = \<lparr> public_key = (\<lambda>a. 3 * a),
           serialize = toy_point,
           pk_hex = (\<lambda>P. bytes_hex (toy_point P)),
           PublicKey = toy_PublicKey,
           sk_derive_child = (\<lambda>a B inv. Inr (a + toy_offset (toy_point (a * B)) inv)),
           pk_derive_child = (\<lambda>A b inv. Inr (A + 3 * toy_offset (toy_point (b * A)) inv)),
           sk_derive_shared_secret = (\<lambda>x P. Inr (toy_point (x * P))),
           pk_derive_shared_secret = (\<lambda>P x. Inr (toy_point (x * P))),
           gcm_encrypt_and_digest = toy_encrypt_and_digest,
           gcm_decrypt_and_verify = toy_decrypt_and_verify \<rparr>"

definition tape :: entropy where
  "tape i = of_nat (7 * i + 1)"

definition zero_tape :: entropy where
  "zero_tape i = 0"

section \<open>The codecs of \<open>bsv/utils.py\<close>, from the specification\<close>

text \<open>
  \<open>bsv/utils.py\<close> is not among the sources; \<open>tests/test_utils.py\<close> calls it. The
  definitions of this section follow sections 4.1 and 4.3 of the specification, and are
  run on the vectors of the tests below. The specification's error kinds:
\<close>

datatype spec_error = RangeError | FormatError

text \<open>Modelled from the spec: the fixed-width unsigned encodings of section 4.1, missing
  with \<open>bsv/utils.py\<close>. \<open>uint_le w n\<close> is \<open>n\<close> in \<open>w\<close> bytes, least significant first;
  \<open>uint_be\<close> is most significant first.\<close>

fun uint_le :: "nat \<Rightarrow> int \<Rightarrow> bytes" where
  "uint_le 0 n = []"
| "uint_le (Suc w) n = of_int (n mod 256) # uint_le w (n div 256)"

definition uint_be :: "nat \<Rightarrow> int \<Rightarrow> bytes" where
  "uint_be w n = rev (uint_le w n)"

text \<open>Modelled from the spec: the inverse of the fixed-width encodings (section 4.1), missing
  with \<open>bsv/utils.py\<close>: the value of a byte string read least or most significant byte
  first.\<close>

fun from_le :: "bytes \<Rightarrow> int" where
  "from_le [] = 0"
| "from_le (b # bs) = uint b + 256 * from_le bs"

definition from_be :: "bytes \<Rightarrow> int" where
  "from_be bs = from_le (rev bs)"

text \<open>Modelled from the spec: \<open>encode_uint(n, width, byteorder)\<close> of section 4.1 for the
  big-endian order, missing with \<open>bsv/utils.py\<close>: it fails with RangeError if \<open>n\<close> does not
  fit in \<open>width\<close> bytes.\<close>

definition encode_uint_be :: "int \<Rightarrow> nat \<Rightarrow> spec_error + bytes" where
  "encode_uint_be n width =
     (if n < 0 \<or> 256 ^ width \<le> n then Inl RangeError else Inr (uint_be width n))"

text \<open>Modelled from the spec: \<open>encode_varint\<close> of section 4.1 (\<open>unsigned_to_varint\<close> in the
  tests), missing with \<open>bsv/utils.py\<close>. The CompactSize rule: \<open>n < 0xfd\<close> gives one byte;
  \<open>n \<le> 0xffff\<close> gives \<open>0xfd\<close> and 2 bytes little-endian; \<open>n \<le> 0xffffffff\<close> gives \<open>0xfe\<close> and
  4 bytes little-endian; else \<open>0xff\<close> and 8 bytes little-endian; RangeError if \<open>n\<close> is
  negative or exceeds the 64-bit unsigned range.\<close>

definition encode_varint :: "int \<Rightarrow> spec_error + bytes" where
  "encode_varint n =
     (if n < 0 \<or> 0xffffffffffffffff < n then Inl RangeError
      else if n < 0xfd then Inr (uint_le 1 n)
      else if n \<le> 0xffff then Inr (0xfd # uint_le 2 n)
      else if n \<le> 0xffffffff then Inr (0xfe # uint_le 4 n)
      else Inr (0xff # uint_le 8 n))"

text \<open>Modelled from the spec: the minimal big-endian digits of a non-negative integer
  (section 4.3, "canonical minimal big-endian encoding"), missing with \<open>bsv/utils.py\<close>.\<close>

function minimal_be :: "int \<Rightarrow> bytes" where
  "minimal_be n = (if n \<le> 0 then [] else minimal_be (n div 256) @ [of_int (n mod 256)])"
  by pat_completeness auto
termination
  by (relation "measure nat") auto

declare minimal_be.simps [simp del]

text \<open>Modelled from the spec: the content of a DER INTEGER (section 4.3), missing with
  \<open>bsv/utils.py\<close>: the minimal digits, prefixed with a \<open>0x00\<close> byte if the top bit is set.\<close>

definition der_content :: "int \<Rightarrow> bytes" where
  "der_content x =
     (let digits = minimal_be x
      in if digits \<noteq> [] \<and> 0x80 \<le> hd digits then 0 # digits else digits)"

text \<open>Modelled from the spec: a DER INTEGER (sections 4.3 and 6), missing with
  \<open>bsv/utils.py\<close>: tag \<open>0x02\<close>, length, content.\<close>

definition der_integer :: "int \<Rightarrow> bytes" where
  "der_integer x = 0x02 # of_nat (length (der_content x)) # der_content x"

text \<open>Modelled from the spec: the low-s form of section 4.3, missing with \<open>bsv/utils.py\<close>:
  "if \<open>s > n/2\<close>, substitute \<open>n - s\<close>". For integers \<open>s > n/2\<close> is \<open>n div 2 < s\<close>. The curve
  order \<open>n\<close> is passed explicitly (section 9).\<close>

definition low_s :: "int \<Rightarrow> int \<Rightarrow> int" where
  "low_s n s = (if n div 2 < s then n - s else s)"

text \<open>Modelled from the spec: \<open>serialize_der\<close> of section 4.3 (\<open>serialize_ecdsa_der\<close> in the
  tests), missing with \<open>bsv/utils.py\<close>: a SEQUENCE (tag \<open>0x30\<close>, length) of the INTEGERs
  \<open>r\<close> and the low-s form of \<open>s\<close>.\<close>

definition serialize_der :: "int \<Rightarrow> int \<times> int \<Rightarrow> bytes" where
  "serialize_der n signature =
     (let (r, s) = signature;
          body = der_integer r @ der_integer (low_s n s)
      in 0x30 # of_nat (length body) # body)"

text \<open>Modelled from the spec: \<open>deserialize_der\<close> of section 4.3 (\<open>deserialize_ecdsa_der\<close> in
  the tests), missing with \<open>bsv/utils.py\<close>: a strict parser; the SEQUENCE tag and length
  and both INTEGER tags and lengths must match the bytes exactly, else FormatError
  (empty input included).\<close>

definition deserialize_der :: "bytes \<Rightarrow> spec_error + int \<times> int" where
  "deserialize_der signature =
     (case signature of
        tag # len # body \<Rightarrow>
          if tag = 0x30 \<and> unat len = length body then
            (case body of
               tag_r # len_r # rest \<Rightarrow>
                 if tag_r = 0x02 \<and> unat len_r \<le> length rest then
                   (case drop (unat len_r) rest of
                      tag_s # len_s # s_bytes \<Rightarrow>
                        if tag_s = 0x02 \<and> unat len_s = length s_bytes then
                          Inr (from_be (take (unat len_r) rest), from_be s_bytes)
                        else Inl FormatError
                    | _ \<Rightarrow> Inl FormatError)
                 else Inl FormatError
             | _ \<Rightarrow> Inl FormatError)
          else Inl FormatError
      | _ \<Rightarrow> Inl FormatError)"

text \<open>\<open>base64.b64decode\<close> on well-formed text: groups of four characters of the alphabet,
  the last group padded with one or two \<open>=\<close>. Anything else is an error here.\<close>

fun index_of :: "'a list \<Rightarrow> 'a \<Rightarrow> nat option" where
  "index_of [] x = None"
| "index_of (y # ys) x = (if x = y then Some 0 else map_option Suc (index_of ys x))"

definition b64_index :: "char \<Rightarrow> nat option" where
  "b64_index c = index_of b64_alphabet c"

definition b64_group :: "nat \<Rightarrow> nat \<Rightarrow> nat \<Rightarrow> nat \<Rightarrow> bytes" where
  "b64_group i0 i1 i2 i3 =
     [of_nat (i0 * 4 + i1 div 16), of_nat (i1 mod 16 * 16 + i2 div 4), of_nat (i2 mod 4 * 64 + i3)]"

fun b64decode :: "string \<Rightarrow> spec_error + bytes" where
  "b64decode [] = Inr []"
| "b64decode (c0 # c1 # c2 # c3 # rest) =
     (if rest = [] \<and> c3 = CHR ''='' then
        (if c2 = CHR ''='' then
           (case those [b64_index c0, b64_index c1] of
              Some [i0, i1] \<Rightarrow> Inr (take 1 (b64_group i0 i1 0 0))
            | _ \<Rightarrow> Inl FormatError)
         else
           (case those [b64_index c0, b64_index c1, b64_index c2] of
              Some [i0, i1, i2] \<Rightarrow> Inr (take 2 (b64_group i0 i1 i2 0))
            | _ \<Rightarrow> Inl FormatError))
      else
        (case those [b64_index c0, b64_index c1, b64_index c2, b64_index c3] of
           Some [i0, i1, i2, i3] \<Rightarrow>
             (case b64decode rest of
                Inl e \<Rightarrow> Inl e
              | Inr bs \<Rightarrow> Inr (b64_group i0 i1 i2 i3 @ bs))
         | _ \<Rightarrow> Inl FormatError))"
| "b64decode _ = Inl FormatError"

text \<open>Modelled from the spec: the recovery marker of section 4.3, missing with
  \<open>bsv/utils.py\<close>: \<open>27 + recovery_id + (4 if compressed else 0)\<close>.\<close>

definition recovery_marker :: "int \<Rightarrow> bool \<Rightarrow> int" where
  "recovery_marker recovery_id compressed = 27 + recovery_id + (if compressed then 4 else 0)"

text \<open>Modelled from the spec: \<open>serialize_recoverable\<close> of sections 3, 4.3 and 8
  (\<open>serialize_ecdsa_recoverable\<close> in the tests), missing with \<open>bsv/utils.py\<close>. Section 8 and
  the tests pass the triple \<open>(r, s, recovery_id)\<close> alone, and section 3 keeps the
  compression flag "alongside, not inside" the 65 bytes: they are the marker byte without
  the flag, \<open>27 + recovery_id\<close>, followed by \<open>r\<close> and \<open>s\<close> as 32 bytes big-endian each.\<close>

definition serialize_recoverable :: "int \<times> int \<times> int \<Rightarrow> spec_error + bytes" where
  "serialize_recoverable signature =
     (let (r, s, recovery_id) = signature in
      case encode_uint_be (recovery_marker recovery_id False) 1 of
        Inl e \<Rightarrow> Inl e
      | Inr marker \<Rightarrow>
      (case encode_uint_be r 32 of
        Inl e \<Rightarrow> Inl e
      | Inr r_bytes \<Rightarrow>
      (case encode_uint_be s 32 of
        Inl e \<Rightarrow> Inl e
      | Inr s_bytes \<Rightarrow> Inr (marker @ r_bytes @ s_bytes))))"

text \<open>Modelled from the spec: the decoding of the compact form (section 4.3), missing with
  \<open>bsv/utils.py\<close>: it "extracts \<open>recovery_id\<close> and the compression flag from the marker
  byte, validating the marker is in the expected range (27..34); otherwise FormatError".
  An input that is not 65 bytes long is a FormatError too.\<close>

definition decode_compact :: "bytes \<Rightarrow> spec_error + (int \<times> int \<times> int) \<times> bool" where
  "decode_compact raw =
     (if length raw \<noteq> 65 then Inl FormatError
      else let marker = uint (hd raw) in
        if marker < 27 \<or> 34 < marker then Inl FormatError
        else let compressed = (31 \<le> marker);
                 recovery_id = marker - 27 - (if compressed then 4 else 0)
             in Inr ((from_be (py_slice 1 33 raw), from_be (py_slice 33 65 raw), recovery_id),
                     compressed))"

text \<open>Modelled from the spec: \<open>deserialize_recoverable\<close> of section 8
  (\<open>deserialize_ecdsa_recoverable\<close> in the tests), missing with \<open>bsv/utils.py\<close>: the triple
  \<open>(r, s, recovery_id)\<close> of the decoded compact form.\<close>

definition deserialize_recoverable :: "bytes \<Rightarrow> spec_error + int \<times> int \<times> int" where
  "deserialize_recoverable raw =
     (case decode_compact raw of
        Inl e \<Rightarrow> Inl e
      | Inr (signature, compressed) \<Rightarrow> Inr signature)"

text \<open>Modelled from the spec: the 65-byte compact form of section 4.3, missing with
  \<open>bsv/utils.py\<close>, from the serialized bytes and the compression flag: the marker becomes
  \<open>27 + recovery_id + (4 if compressed else 0)\<close>, \<open>r\<close> and \<open>s\<close> stay.\<close>

definition with_compression_flag :: "bytes \<Rightarrow> bool \<Rightarrow> bytes" where
  "with_compression_flag serialized compressed =
     (case serialized of
        [] \<Rightarrow> []
      | marker # r_s \<Rightarrow> (marker + (if compressed then 4 else 0)) # r_s)"

text \<open>Modelled from the spec: \<open>stringify\<close> of section 4.3 (\<open>stringify_ecdsa_recoverable\<close> in
  the tests, called on the serialized bytes and the compression flag), missing with
  \<open>bsv/utils.py\<close>: "a pure base64-encode" of the 65-byte compact form.\<close>

definition stringify_recoverable :: "bytes \<Rightarrow> bool \<Rightarrow> string" where
  "stringify_recoverable serialized compressed =
     b64encode (with_compression_flag serialized compressed)"

text \<open>Modelled from the spec: \<open>unstringify\<close> of section 4.3 (\<open>unstringify_ecdsa_recoverable\<close>
  in the tests), missing with \<open>bsv/utils.py\<close>: "base64-decode followed by the compact-form
  split, returning \<open>(raw_65_bytes, is_compressed)\<close>". The bytes returned are the serialized
  ones, the flag taken out of the marker: the tests require them to equal the
  serializer's output.\<close>

definition unstringify_recoverable :: "string \<Rightarrow> spec_error + bytes \<times> bool" where
  "unstringify_recoverable encoded =
     (case b64decode encoded of
        Inl e \<Rightarrow> Inl e
      | Inr raw \<Rightarrow>
      (case decode_compact raw of
        Inl e \<Rightarrow> Inl e
      | Inr (signature, compressed) \<Rightarrow>
          Inr ((hd raw - (if compressed then 4 else 0)) # tl raw, compressed)))"

subsection \<open>The vectors of \<open>tests/test_utils.py\<close>\<close>

text \<open>Modelled from the spec: the curve order \<open>n\<close> (\<open>curve.n\<close> in the tests) comes from the
  curve collaborator (section 9), which is not among the sources; this is the order of
  secp256k1, the curve of the protocol family the specification names.\<close>

definition secp256k1_n :: int where
  "secp256k1_n = 0xFFFFFFFFFFFFFFFFFFFFFFFFFFFFFFFEBAAEDCE6AF48A03BBFD25E8CD0364141"

text \<open>\<open>test_der_serialization\<close> (lines 92 to 105): \<open>r1\<close>, \<open>s1\<close>, \<open>r3\<close>, \<open>s3\<close>.\<close>

definition der_r1 :: int where
  "der_r1 = 114587593887127314608220924841831336233967095853165151956820984900193959037698"

definition der_s1 :: int where
  "der_s1 = 24000727837347392504013031837120627225728348681623127776947626422811445180558"

definition der_r3 :: int where
  "der_r3 = 16256011036517295435281672405882454685603286080662722236323812471789728336314"

definition der_s3 :: int where
  "der_s3 = 399115516115506318232804590771004057701078428754012727453057145885291814963"

text \<open>\<open>test_recoverable_serialization\<close> (lines 121 to 134): \<open>sig1\<close>, \<open>r1\<close>, \<open>s1\<close>, \<open>sig2\<close>,
  \<open>r2\<close>, \<open>s2\<close>.\<close>

definition rec_sig1 :: string where
  "rec_sig1 =
     ''IGdzMq98lowek10e3JFXWj909xp0oLRj71aF7jpWRxaabwH+fBia/K2JpoGQlFFbAl/Q5jo2DYSzQw6pZWhmRtk=''"

definition rec_r1 :: int where
  "rec_r1 = 46791760634954614230959036903197650877536710453529507613159894982805988775578"

definition rec_s1 :: int where
  "rec_s1 = 50210249429004071986853078788876176203428035162933045037212292756431067039449"

definition rec_sig2 :: string where
  "rec_sig2 =
     ''G1CbjucJgMF/5lyS7LPZrLZPVU60RA6b7fq9b1zULG6uNq4PWQUD8HAvZMgKRPk/vkbDwN0ZsPwoVgKgV5rOSyI=''"

definition rec_r2 :: int where
  "rec_r2 = 36459875458431662725541158294877706686723420026424146605771954142876183326382"

definition rec_s2 :: int where
  "rec_s2 = 24732431138926461036459634608851410023678722603615132417233328850542638549794"

section \<open>Properties of the small instance\<close>

lemma toy_key_agreement: "key_agreement toy"
  unfolding key_agreement_def
  by (simp add: toy_def toy_point_def toy_PublicKey_def algebra_simps)

lemma toy_aead_correct: "aead_correct toy m"
  unfolding aead_correct_def
  by (simp add: toy_def toy_encrypt_and_digest_def toy_decrypt_and_verify_def toy_tag_def
      Let_def comp_def)

section \<open>The envelope and its fields\<close>

lemma randbytes_fst: "fst (randbytes n g) = map g [0..<n]"
  by (simp add: randbytes_def)

lemma randbytes_twice:
  "fst (randbytes m (snd (randbytes n g))) = map g [n..<n + m]"
proof -
  have "map (\<lambda>i. g (i + n)) [0..<m] = map g (map (\<lambda>i. i + n) [0..<m])"
    by simp
  also have "\<dots> = map g [n..<m + n]"
    by (simp only: map_add_upt)
  finally show ?thesis
    by (simp add: randbytes_def add.commute)
qed

lemma encrypt_unfold:
  assumes "sk_derive_child C a B
        (''2-message encryption-'' @ b64encode (map g [0..<32])) = Inr sender_child"
    and "pk_derive_child C B a
          (''2-message encryption-'' @ b64encode (map g [0..<32])) = Inr recipient_child"
    and "sk_derive_shared_secret C sender_child recipient_child = Inr secret"
  shows "encrypt C m a B g =
           (case gcm_encrypt_and_digest C (drop 1 secret) (map g [32..<64]) m of
              Inl e \<Rightarrow> Inl e
            | Inr (ct, tag) \<Rightarrow>
                Inr (VERSION @ serialize C (public_key C a) @ serialize C B
                     @ map g [0..<32] @ map g [32..<64] @ ct @ tag))"
proof -
  have iv: "fst (randbytes 32 (snd (randbytes 32 g))) = map g [32..<64]"
    using randbytes_twice [of 32 32 g] by simp
  show ?thesis
    using iv assms
    by (simp add: encrypt_def aes_gcm_encrypt_def randbytes_fst split_beta
        split: sum.splits prod.splits)
qed

lemma decrypt_unfold:
  assumes "py_slice 0 4 msg = VERSION"
    and "py_slice 37 70 msg = serialize C (public_key C b)"
    and "PublicKey C (py_slice 4 37 msg) = Inr sender"
    and "pk_derive_child C sender b
          (''2-message encryption-'' @ b64encode (py_slice 70 102 msg)) = Inr sender_child"
    and "sk_derive_child C b sender
          (''2-message encryption-'' @ b64encode (py_slice 70 102 msg)) = Inr recipient_child"
    and "pk_derive_shared_secret C sender_child recipient_child = Inr secret"
  shows "decrypt C msg b =
           (case gcm_decrypt_and_verify C (drop 1 secret)
                   (py_slice 0 32 (drop 102 msg))
                   (py_slice_neg_stop 32 16 (drop 102 msg))
                   (py_slice_neg_start 16 (drop 102 msg)) of
              Inl e \<Rightarrow> Inl (decrypt_failure e)
            | Inr plaintext \<Rightarrow> Inr plaintext)"
  using assms
  by (simp add: decrypt_def decrypt_body_def aes_gcm_decrypt_def)

lemma envelope_fields:
  fixes v spk rpk kid iv ct tag :: bytes
  assumes "length v = 4" "length spk = 33" "length rpk = 33" "length kid = 32"
    "length iv = 32" "length tag = 16"
  defines "env \<equiv> v @ spk @ rpk @ kid @ iv @ ct @ tag"
  shows "py_slice 0 4 env = v" "py_slice 4 37 env = spk" "py_slice 37 70 env = rpk"
    "py_slice 70 102 env = kid" "py_slice 0 32 (drop 102 env) = iv"
    "py_slice_neg_stop 32 16 (drop 102 env) = ct" "py_slice_neg_start 16 (drop 102 env) = tag"
  using assms
  by (simp_all add: py_slice_def py_slice_neg_stop_def py_slice_neg_start_def)

lemma encrypt_succeeds:
  assumes "key_agreement C" and "aead_correct C m"
  shows "\<exists>a' b' secret ct tag.
           sk_derive_child C a (public_key C b)
                 (''2-message encryption-'' @ b64encode (map g [0..<32])) = Inr a'
         \<and> pk_derive_child C (public_key C a) b
               (''2-message encryption-'' @ b64encode (map g [0..<32])) = Inr (public_key C a')
         \<and> sk_derive_child C b (public_key C a)
               (''2-message encryption-'' @ b64encode (map g [0..<32])) = Inr b'
         \<and> pk_derive_child C (public_key C b) a
               (''2-message encryption-'' @ b64encode (map g [0..<32])) = Inr (public_key C b')
         \<and> sk_derive_shared_secret C a' (public_key C b') = Inr secret
         \<and> pk_derive_shared_secret C (public_key C a') b' = Inr secret
         \<and> length secret = 33
         \<and> gcm_encrypt_and_digest C (drop 1 secret) (map g [32..<64]) m = Inr (ct, tag)
         \<and> length ct = length m \<and> length tag = 16
         \<and> gcm_decrypt_and_verify C (drop 1 secret) (map g [32..<64]) ct tag = Inr m
         \<and> encrypt C m a (public_key C b) g =
             Inr (VERSION @ serialize C (public_key C a) @ serialize C (public_key C b)
                  @ map g [0..<32] @ map g [32..<64] @ ct @ tag)"
proof -
  let ?inv = "(''2-message encryption-'' @ b64encode (map g [0..<32]))"
  from assms(1) obtain a' where a': "sk_derive_child C a (public_key C b) ?inv = Inr a'"
    "pk_derive_child C (public_key C a) b ?inv = Inr (public_key C a')"
    unfolding key_agreement_def by blast
  from assms(1) obtain b' where b': "sk_derive_child C b (public_key C a) ?inv = Inr b'"
    "pk_derive_child C (public_key C b) a ?inv = Inr (public_key C b')"
    unfolding key_agreement_def by blast
  from assms(1) obtain secret where s: "length secret = 33"
    "sk_derive_shared_secret C a' (public_key C b') = Inr secret"
    "pk_derive_shared_secret C (public_key C a') b' = Inr secret"
    unfolding key_agreement_def by blast
  have "length (drop 1 secret) = 32" "length (map g [32..<64]) = 32"
    using s(1) by simp_all
  with assms(2) obtain ct tag where
    e: "gcm_encrypt_and_digest C (drop 1 secret) (map g [32..<64]) m = Inr (ct, tag)"
      "length ct = length m" "length tag = 16"
      "gcm_decrypt_and_verify C (drop 1 secret) (map g [32..<64]) ct tag = Inr m"
    unfolding aead_correct_def by blast
  have "encrypt C m a (public_key C b) g =
          Inr (VERSION @ serialize C (public_key C a) @ serialize C (public_key C b)
               @ map g [0..<32] @ map g [32..<64] @ ct @ tag)"
    using encrypt_unfold [OF a'(1) b'(2) s(2)] e(1) by simp
  with a' b' s e show ?thesis by blast
qed

section \<open>Claims about \<open>encrypt\<close> and \<open>decrypt\<close>\<close>

text \<open>
  C1. For every byte message \<open>m\<close> (the non-empty ones the claim names among them),
  every sender private key \<open>a\<close> and every recipient key pair \<open>(b, public_key b)\<close>:
  \<open>encrypt\<close> returns an envelope, and \<open>decrypt\<close> of that envelope under \<open>b\<close> returns \<open>m\<close>,
  whatever the random draws. The keys and the cipher are the parameters, under what the
  specification says of them.
\<close>

theorem decrypt_encrypt:
  assumes "key_agreement C" and "aead_correct C m"
  shows "\<exists>envelope. encrypt C m a (public_key C b) g = Inr envelope
                   \<and> decrypt C envelope b = Inr m"
proof -
  let ?inv = "(''2-message encryption-'' @ b64encode (map g [0..<32]))"
  from encrypt_succeeds [OF assms, of a b g] obtain a' b' secret ct tag where
    h: "pk_derive_child C (public_key C a) b ?inv = Inr (public_key C a')"
       "sk_derive_child C b (public_key C a) ?inv = Inr b'"
       "pk_derive_shared_secret C (public_key C a') b' = Inr secret"
       "length tag = 16"
       "gcm_decrypt_and_verify C (drop 1 secret) (map g [32..<64]) ct tag = Inr m"
       "encrypt C m a (public_key C b) g =
          Inr (VERSION @ serialize C (public_key C a) @ serialize C (public_key C b)
               @ map g [0..<32] @ map g [32..<64] @ ct @ tag)"
    by blast
  let ?env = "VERSION @ serialize C (public_key C a) @ serialize C (public_key C b)
               @ map g [0..<32] @ map g [32..<64] @ ct @ tag"
  have len: "length VERSION = 4" "length (serialize C (public_key C a)) = 33"
    "length (serialize C (public_key C b)) = 33" "length (map g [0..<32]) = 32"
    "length (map g [32..<64]) = 32"
    using assms(1) by (simp_all add: VERSION_def key_agreement_def)
  note f = envelope_fields [OF len h(4), of ct]
  have parse: "PublicKey C (py_slice 4 37 ?env) = Inr (public_key C a)"
    using assms(1) f(2) by (simp add: key_agreement_def)
  have "decrypt C ?env b = Inr m"
    using decrypt_unfold [of ?env C b "public_key C a" "public_key C a'" b' secret]
      f parse h(1,2,3,5)
    by simp
  with h(6) show ?thesis by simp
qed

theorem decrypt_encrypt_witness:
  "\<exists>envelope. encrypt toy [1, 2, 3] 5 (public_key toy 7) tape = Inr envelope
             \<and> decrypt toy envelope 7 = Inr [1, 2, 3]"
  by (rule decrypt_encrypt [OF toy_key_agreement toy_aead_correct])

text \<open>
  C2. For every message, \<open>encrypt\<close> returns exactly
  version (the four bytes 42 42 10 33) followed by the sender's serialized public key
  (33 bytes), the recipient's serialized public key (33 bytes), the key id (the first
  draw of 32 random bytes), the IV (the second draw of 32 random bytes), the ciphertext
  and the 16-byte tag of the cipher run on the message under that IV, in that order.
\<close>

theorem encrypt_envelope_layout:
  assumes "key_agreement C" and "aead_correct C message"
  shows "\<exists>key ciphertext auth_tag.
           gcm_encrypt_and_digest C key (fst (randbytes 32 (snd (randbytes 32 g)))) message
             = Inr (ciphertext, auth_tag)
         \<and> encrypt C message a (public_key C b) g =
             Inr ([0x42, 0x42, 0x10, 0x33]
                  @ serialize C (public_key C a)
                  @ serialize C (public_key C b)
                  @ fst (randbytes 32 g)
                  @ fst (randbytes 32 (snd (randbytes 32 g)))
                  @ ciphertext
                  @ auth_tag)
         \<and> length (serialize C (public_key C a)) = 33
         \<and> length (serialize C (public_key C b)) = 33
         \<and> length (fst (randbytes 32 g)) = 32
         \<and> length (fst (randbytes 32 (snd (randbytes 32 g)))) = 32
         \<and> length auth_tag = 16"
proof -
  from encrypt_succeeds [OF assms, of a b g] obtain secret ct tag where
    h: "gcm_encrypt_and_digest C (drop 1 secret) (map g [32..<64]) message = Inr (ct, tag)"
       "length tag = 16"
       "encrypt C message a (public_key C b) g =
          Inr (VERSION @ serialize C (public_key C a) @ serialize C (public_key C b)
               @ map g [0..<32] @ map g [32..<64] @ ct @ tag)"
    by blast
  have iv: "fst (randbytes 32 (snd (randbytes 32 g))) = map g [32..<64]"
    using randbytes_twice [of 32 32 g] by simp
  have len: "length (serialize C (public_key C a)) = 33"
    "length (serialize C (public_key C b)) = 33"
    using assms(1) by (simp_all add: key_agreement_def)
  have kid: "fst (randbytes 32 g) = map g [0..<32]"
    by (rule randbytes_fst)
  have v: "[0x42, 0x42, 0x10, 0x33] = VERSION"
    by (simp add: VERSION_def)
  show ?thesis
    unfolding iv kid v
    using h len by (intro exI [of _ "drop 1 secret"] exI [of _ ct] exI [of _ tag]) simp
qed

theorem encrypt_envelope_layout_witness:
  "\<exists>key ciphertext auth_tag.
           gcm_encrypt_and_digest toy key (fst (randbytes 32 (snd (randbytes 32 tape)))) [1, 2, 3]
             = Inr (ciphertext, auth_tag)
         \<and> encrypt toy [1, 2, 3] 5 (public_key toy 7) tape =
             Inr ([0x42, 0x42, 0x10, 0x33]
                  @ serialize toy (public_key toy 5)
                  @ serialize toy (public_key toy 7)
                  @ fst (randbytes 32 tape)
                  @ fst (randbytes 32 (snd (randbytes 32 tape)))
                  @ ciphertext
                  @ auth_tag)
         \<and> length (serialize toy (public_key toy 5)) = 33
         \<and> length (serialize toy (public_key toy 7)) = 33
         \<and> length (fst (randbytes 32 tape)) = 32
         \<and> length (fst (randbytes 32 (snd (randbytes 32 tape)))) = 32
         \<and> length auth_tag = 16"
  by (rule encrypt_envelope_layout [OF toy_key_agreement toy_aead_correct])

text \<open>
  C3. For every input whose first four bytes differ from 42 42 10 33 (an input shorter
  than four bytes included) and every recipient private key, \<open>decrypt\<close> fails with the
  version mismatch: the exception raised is the \<open>ValueError\<close> of the handler, its message
  and its cause are those of the version mismatch raised at line 55.
\<close>

theorem decrypt_version_mismatch:
  assumes "take 4 message \<noteq> [0x42, 0x42, 0x10, 0x33]"
  shows "decrypt C message recipient =
           Inl (PyException ''ValueError''
                  (''failed to decrypt message: message version mismatch, expected 42421033 but got ''
                   @ bytes_hex (take 4 message))
                  (Some (version_mismatch (take 4 message))))"
  using assms
  by (simp add: decrypt_def decrypt_body_def py_slice_def VERSION_def decrypt_failure_def
      is_Exception_def base_exception_only_def
      version_mismatch_def ValueError_def bytes_hex_def hex_digit_def)

theorem decrypt_version_mismatch_witness:
  "decrypt toy [0x42, 0x42, 0x10, 0x34, 9] 7 =
     Inl (PyException ''ValueError''
            ''failed to decrypt message: message version mismatch, expected 42421033 but got 42421034''
            (Some (ValueError ''message version mismatch, expected 42421033 but got 42421034'')))"
  using decrypt_version_mismatch [of "[0x42, 0x42, 0x10, 0x34, 9]" toy 7]
  by (simp add: version_mismatch_def bytes_hex_def hex_digit_def VERSION_def)

text \<open>
  C4. For every envelope with the right version and every recipient private key whose
  serialized public key differs from bytes 37 to 69 of the envelope, \<open>decrypt\<close> fails
  reporting the recipient mismatch (the handler's \<open>ValueError\<close>, whose message and cause
  are those of the mismatch raised at line 59), and returns no plaintext.
\<close>

theorem decrypt_recipient_mismatch:
  assumes "py_slice 0 4 message = VERSION"
    and "py_slice 37 70 message \<noteq> serialize C (public_key C recipient)"
  shows "decrypt C message recipient =
           Inl (PyException ''ValueError''
                  (''failed to decrypt message: recipient public key mismatch, expected ''
                   @ pk_hex C (public_key C recipient) @ '' but got ''
                   @ bytes_hex (py_slice 37 70 message))
                  (Some (recipient_mismatch (pk_hex C (public_key C recipient))
                           (py_slice 37 70 message))))
         \<and> (\<forall>plaintext. decrypt C message recipient \<noteq> Inr plaintext)"
  using assms
  by (simp add: decrypt_def decrypt_body_def decrypt_failure_def recipient_mismatch_def
      is_Exception_def base_exception_only_def
      ValueError_def)

theorem decrypt_recipient_mismatch_witness:
  "\<exists>envelope e. encrypt toy [1, 2, 3] 5 (public_key toy 7) tape = Inr envelope
      \<and> decrypt toy envelope 8 = Inl e
      \<and> exc_cause e = Some (recipient_mismatch (pk_hex toy (public_key toy 8))
                             (serialize toy (public_key toy 7)))"
proof -
  from encrypt_succeeds [OF toy_key_agreement toy_aead_correct,
      where m = "[1, 2, 3]" and a = 5 and b = 7 and g = tape]
  obtain ct tag where
    h: "length tag = 16"
       "encrypt toy [1, 2, 3] 5 (public_key toy 7) tape =
          Inr (VERSION @ serialize toy (public_key toy 5) @ serialize toy (public_key toy 7)
               @ map tape [0..<32] @ map tape [32..<64] @ ct @ tag)"
    by blast
  let ?env = "VERSION @ serialize toy (public_key toy 5) @ serialize toy (public_key toy 7)
               @ map tape [0..<32] @ map tape [32..<64] @ ct @ tag"
  have len: "length VERSION = 4" "length (serialize toy (public_key toy 5)) = 33"
    "length (serialize toy (public_key toy 7)) = 33" "length (map tape [0..<32]) = 32"
    "length (map tape [32..<64]) = 32"
    using toy_key_agreement by (simp_all add: VERSION_def key_agreement_def)
  note f = envelope_fields [OF len h(1), of ct]
  have ne: "py_slice 37 70 ?env \<noteq> serialize toy (public_key toy 8)"
    unfolding f(3) by (simp add: toy_def toy_point_def)
  from decrypt_recipient_mismatch [OF f(1) ne]
  have "decrypt toy ?env 8 =
           Inl (PyException ''ValueError''
                  (''failed to decrypt message: recipient public key mismatch, expected ''
                   @ pk_hex toy (public_key toy 8) @ '' but got ''
                   @ bytes_hex (serialize toy (public_key toy 7)))
                  (Some (recipient_mismatch (pk_hex toy (public_key toy 8))
                           (serialize toy (public_key toy 7)))))"
    unfolding f(3) by simp
  with h(2) show ?thesis by simp
qed

text \<open>
  C5, as the code has it. \<open>decrypt\<close> raises \<open>e\<close> exactly when one stage of its \<open>try\<close>
  block raises an exception \<open>c\<close>, every stage before it having passed, and \<open>e\<close> is what
  the handler of lines 68 and 69 makes of \<open>c\<close>: if \<open>c\<close> is an instance of \<open>Exception\<close>, a
  \<open>ValueError\<close> whose message is \<open>failed to decrypt message: \<close> followed by the message
  of \<open>c\<close> and whose cause is \<open>c\<close>; if it is not (\<open>KeyboardInterrupt\<close>, \<open>SystemExit\<close>),
  \<open>c\<close> itself, which \<open>except Exception\<close> does not catch. The stages are, in order, the
  version check, the recipient check, the parsing of the sender's key, the derivation
  of the sender's child key, the derivation of the recipient's child key, the shared
  secret and the cipher's verification; the first one that fails decides and none is
  run again. The error determines the original exception: two different original
  exceptions never give the same error, and a version mismatch and a recipient mismatch
  always give different errors.
\<close>

theorem decrypt_failure_single_kind:
  fixes C C\<^sub>2 :: "('sk, 'pk) collaborators"
  shows "(decrypt C message recipient = Inl e \<longleftrightarrow>
      (\<exists>c. e = (if is_Exception c
                then PyException ''ValueError'' (''failed to decrypt message: '' @ exc_msg c)
                       (Some c)
                else c)
         \<and> ((py_slice 0 4 message \<noteq> VERSION
           \<and> c = version_mismatch (py_slice 0 4 message))
        \<or> (py_slice 0 4 message = VERSION
           \<and> py_slice 37 70 message \<noteq> serialize C (public_key C recipient)
           \<and> c = recipient_mismatch (pk_hex C (public_key C recipient))
                                      (py_slice 37 70 message))
        \<or> (py_slice 0 4 message = VERSION
           \<and> py_slice 37 70 message = serialize C (public_key C recipient)
           \<and> (PublicKey C (py_slice 4 37 message) = Inl c
              \<or> (\<exists>sender. PublicKey C (py_slice 4 37 message) = Inr sender
                   \<and> (pk_derive_child C sender recipient
                        (''2-message encryption-''
                         @ b64encode (py_slice 70 102 message)) = Inl c
                      \<or> (\<exists>sender_child.
                           pk_derive_child C sender recipient
                             (''2-message encryption-''
                              @ b64encode (py_slice 70 102 message))
                             = Inr sender_child
                           \<and> (sk_derive_child C recipient sender
                                (''2-message encryption-''
                                 @ b64encode (py_slice 70 102 message)) = Inl c
                              \<or> (\<exists>recipient_child.
                                   sk_derive_child C recipient sender
                                     (''2-message encryption-''
                                      @ b64encode (py_slice 70 102 message))
                                     = Inr recipient_child
                                   \<and> (pk_derive_shared_secret C sender_child
                                         recipient_child = Inl c
                                      \<or> (\<exists>shared_secret.
                                           pk_derive_shared_secret C sender_child
                                             recipient_child = Inr shared_secret
                                           \<and> gcm_decrypt_and_verify C
                                                (drop 1 shared_secret)
                                                (py_slice 0 32 (drop 102 message))
                                                (py_slice_neg_stop 32 16
                                                   (drop 102 message))
                                                (py_slice_neg_start 16
                                                   (drop 102 message))
                                               = Inl c))))))))))))
   \<and> (\<forall>c c'. decrypt_failure c = decrypt_failure c' \<longrightarrow> c = c')
   \<and> (py_slice 0 4 message \<noteq> VERSION
         \<and> py_slice 0 4 message\<^sub>2 = VERSION
         \<and> py_slice 37 70 message\<^sub>2 \<noteq> serialize C\<^sub>2 (public_key C\<^sub>2 recipient\<^sub>2)
         \<longrightarrow> decrypt C message recipient \<noteq> decrypt C\<^sub>2 message\<^sub>2 recipient\<^sub>2)"
proof (intro conjI allI impI)
  have stages: "decrypt_body C message recipient = Inl c \<longleftrightarrow>
        ((py_slice 0 4 message \<noteq> VERSION
           \<and> c = version_mismatch (py_slice 0 4 message))
        \<or> (py_slice 0 4 message = VERSION
           \<and> py_slice 37 70 message \<noteq> serialize C (public_key C recipient)
           \<and> c = recipient_mismatch (pk_hex C (public_key C recipient))
                                      (py_slice 37 70 message))
        \<or> (py_slice 0 4 message = VERSION
           \<and> py_slice 37 70 message = serialize C (public_key C recipient)
           \<and> (PublicKey C (py_slice 4 37 message) = Inl c
              \<or> (\<exists>sender. PublicKey C (py_slice 4 37 message) = Inr sender
                   \<and> (pk_derive_child C sender recipient
                        (''2-message encryption-''
                         @ b64encode (py_slice 70 102 message)) = Inl c
                      \<or> (\<exists>sender_child.
                           pk_derive_child C sender recipient
                             (''2-message encryption-''
                              @ b64encode (py_slice 70 102 message))
                             = Inr sender_child
                           \<and> (sk_derive_child C recipient sender
                                (''2-message encryption-''
                                 @ b64encode (py_slice 70 102 message)) = Inl c
                              \<or> (\<exists>recipient_child.
                                   sk_derive_child C recipient sender
                                     (''2-message encryption-''
                                      @ b64encode (py_slice 70 102 message))
                                     = Inr recipient_child
                                   \<and> (pk_derive_shared_secret C sender_child
                                         recipient_child = Inl c
                                      \<or> (\<exists>shared_secret.
                                           pk_derive_shared_secret C sender_child
                                             recipient_child = Inr shared_secret
                                           \<and> gcm_decrypt_and_verify C
                                                (drop 1 shared_secret)
                                                (py_slice 0 32 (drop 102 message))
                                                (py_slice_neg_stop 32 16
                                                   (drop 102 message))
                                                (py_slice_neg_start 16
                                                   (drop 102 message))
                                               = Inl c))))))))))" for c
    unfolding decrypt_body_def aes_gcm_decrypt_def Let_def
    by (auto split: if_splits sum.splits)
  have wrap: "decrypt C message recipient = Inl e \<longleftrightarrow>
                (\<exists>c. e = decrypt_failure c \<and> decrypt_body C message recipient = Inl c)"
    by (auto simp add: decrypt_def split: sum.splits)
  show "decrypt C message recipient = Inl e \<longleftrightarrow>
      (\<exists>c. e = (if is_Exception c
                then PyException ''ValueError'' (''failed to decrypt message: '' @ exc_msg c)
                       (Some c)
                else c)
         \<and> ((py_slice 0 4 message \<noteq> VERSION
           \<and> c = version_mismatch (py_slice 0 4 message))
        \<or> (py_slice 0 4 message = VERSION
           \<and> py_slice 37 70 message \<noteq> serialize C (public_key C recipient)
           \<and> c = recipient_mismatch (pk_hex C (public_key C recipient))
                                      (py_slice 37 70 message))
        \<or> (py_slice 0 4 message = VERSION
           \<and> py_slice 37 70 message = serialize C (public_key C recipient)
           \<and> (PublicKey C (py_slice 4 37 message) = Inl c
              \<or> (\<exists>sender. PublicKey C (py_slice 4 37 message) = Inr sender
                   \<and> (pk_derive_child C sender recipient
                        (''2-message encryption-''
                         @ b64encode (py_slice 70 102 message)) = Inl c
                      \<or> (\<exists>sender_child.
                           pk_derive_child C sender recipient
                             (''2-message encryption-''
                              @ b64encode (py_slice 70 102 message))
                             = Inr sender_child
                           \<and> (sk_derive_child C recipient sender
                                (''2-message encryption-''
                                 @ b64encode (py_slice 70 102 message)) = Inl c
                              \<or> (\<exists>recipient_child.
                                   sk_derive_child C recipient sender
                                     (''2-message encryption-''
                                      @ b64encode (py_slice 70 102 message))
                                     = Inr recipient_child
                                   \<and> (pk_derive_shared_secret C sender_child
                                         recipient_child = Inl c
                                      \<or> (\<exists>shared_secret.
                                           pk_derive_shared_secret C sender_child
                                             recipient_child = Inr shared_secret
                                           \<and> gcm_decrypt_and_verify C
                                                (drop 1 shared_secret)
                                                (py_slice 0 32 (drop 102 message))
                                                (py_slice_neg_stop 32 16
                                                   (drop 102 message))
                                                (py_slice_neg_start 16
                                                   (drop 102 message))
                                               = Inl c)))))))))))"
    unfolding wrap stages decrypt_failure_def ..
next
  fix c c'
  assume "decrypt_failure c = decrypt_failure c'"
  then show "c = c'"
    by (auto simp add: decrypt_failure_def is_Exception_def base_exception_only_def
        split: if_splits)
next
  assume a: "py_slice 0 4 message \<noteq> VERSION
         \<and> py_slice 0 4 message\<^sub>2 = VERSION
         \<and> py_slice 37 70 message\<^sub>2 \<noteq> serialize C\<^sub>2 (public_key C\<^sub>2 recipient\<^sub>2)"
  have differ: "decrypt_failure (version_mismatch version)
           \<noteq> decrypt_failure (recipient_mismatch expected recipient_pubkey)"
    for version expected recipient_pubkey
    by (simp add: decrypt_failure_def version_mismatch_def recipient_mismatch_def
        ValueError_def is_Exception_def base_exception_only_def)
  have "decrypt C message recipient
          = Inl (decrypt_failure (version_mismatch (py_slice 0 4 message)))"
    using a by (simp add: decrypt_def decrypt_body_def)
  moreover have "decrypt C\<^sub>2 message\<^sub>2 recipient\<^sub>2
          = Inl (decrypt_failure (recipient_mismatch (pk_hex C\<^sub>2 (public_key C\<^sub>2 recipient\<^sub>2))
                                    (py_slice 37 70 message\<^sub>2)))"
    using a by (simp add: decrypt_def decrypt_body_def)
  ultimately show "decrypt C message recipient \<noteq> decrypt C\<^sub>2 message\<^sub>2 recipient\<^sub>2"
    using differ by simp
qed

theorem decrypt_failure_single_kind_witness:
  "decrypt toy [] 7 =
     Inl (PyException ''ValueError''
            ''failed to decrypt message: message version mismatch, expected 42421033 but got ''
            (Some (version_mismatch [])))
   \<and> decrypt toy (VERSION @ toy_point 15 @ toy_point 21 @ replicate 32 0 @ replicate 32 0
                   @ [105, 106, 107] @ replicate 16 166) 8 =
     Inl (PyException ''ValueError''
            (''failed to decrypt message: ''
             @ exc_msg (recipient_mismatch (pk_hex toy (public_key toy 8)) (toy_point 21)))
            (Some (recipient_mismatch (pk_hex toy (public_key toy 8)) (toy_point 21))))
   \<and> decrypt toy (VERSION @ replicate 33 0 @ toy_point 21 @ replicate 80 0) 7 =
     Inl (PyException ''ValueError'' ''failed to decrypt message: invalid public key''
            (Some (PyException ''ValueError'' ''invalid public key'' None)))
   \<and> decrypt (toy\<lparr>pk_derive_child :=
                     \<lambda>A b inv. Inl (PyException ''RuntimeError'' ''sender child'' None)\<rparr>)
         (VERSION @ toy_point 15 @ toy_point 21 @ replicate 32 0 @ replicate 32 0
          @ [105, 106, 107] @ replicate 16 166) 7 =
     Inl (PyException ''ValueError'' ''failed to decrypt message: sender child''
            (Some (PyException ''RuntimeError'' ''sender child'' None)))
   \<and> decrypt (toy\<lparr>sk_derive_child :=
                     \<lambda>a B inv. Inl (PyException ''RuntimeError'' ''recipient child'' None)\<rparr>)
         (VERSION @ toy_point 15 @ toy_point 21 @ replicate 32 0 @ replicate 32 0
          @ [105, 106, 107] @ replicate 16 166) 7 =
     Inl (PyException ''ValueError'' ''failed to decrypt message: recipient child''
            (Some (PyException ''RuntimeError'' ''recipient child'' None)))
   \<and> decrypt (toy\<lparr>pk_derive_shared_secret :=
                     \<lambda>P x. Inl (PyException ''TypeError'' ''shared secret'' None)\<rparr>)
         (VERSION @ toy_point 15 @ toy_point 21 @ replicate 32 0 @ replicate 32 0
          @ [105, 106, 107] @ replicate 16 166) 7 =
     Inl (PyException ''ValueError'' ''failed to decrypt message: shared secret''
            (Some (PyException ''TypeError'' ''shared secret'' None)))
   \<and> decrypt toy (VERSION @ toy_point 15 @ toy_point 21 @ replicate 32 0 @ replicate 32 0
                   @ [105, 106, 107] @ replicate 16 165) 7 =
     Inl (PyException ''ValueError'' ''failed to decrypt message: MAC check failed''
            (Some (PyException ''ValueError'' ''MAC check failed'' None)))
   \<and> decrypt toy [] 7
       \<noteq> decrypt toy (VERSION @ toy_point 15 @ toy_point 21 @ replicate 32 0 @ replicate 32 0
                        @ [105, 106, 107] @ replicate 16 166) 8"
proof (intro conjI)
  note raised = iffD2 [OF conjunct1 [OF decrypt_failure_single_kind]]
  note ex = is_Exception_def base_exception_only_def
  let ?E = "VERSION @ toy_point 15 @ toy_point 21 @ replicate 32 0 @ replicate 32 0
                   @ [105, 106, 107] @ replicate 16 (166 :: byte)"
  let ?F = "VERSION @ toy_point 15 @ toy_point 21 @ replicate 32 0 @ replicate 32 0
                   @ [105, 106, 107] @ replicate 16 (165 :: byte)"
  let ?P = "VERSION @ replicate 33 0 @ toy_point 21 @ replicate 80 (0 :: byte)"
  let ?inv = "''2-message encryption-'' @ b64encode (py_slice 70 102 ?E)"
  let ?key = "replicate 31 0 @ [104 :: byte]"
  let ?C1 = "toy\<lparr>pk_derive_child :=
                     \<lambda>A b inv. Inl (PyException ''RuntimeError'' ''sender child'' None)\<rparr>"
  let ?C2 = "toy\<lparr>sk_derive_child :=
                     \<lambda>a B inv. Inl (PyException ''RuntimeError'' ''recipient child'' None)\<rparr>"
  let ?C3 = "toy\<lparr>pk_derive_shared_secret :=
                     \<lambda>P x. Inl (PyException ''TypeError'' ''shared secret'' None)\<rparr>"
  have v0: "py_slice 0 4 ([] :: bytes) \<noteq> VERSION"
    by code_simp
  show "decrypt toy [] 7 =
     Inl (PyException ''ValueError''
            ''failed to decrypt message: message version mismatch, expected 42421033 but got ''
            (Some (version_mismatch [])))"
    apply (rule raised)
    apply (rule exI [of _ "version_mismatch (py_slice 0 4 [])"])
    apply (rule conjI)
     apply (simp add: ex py_slice_def version_mismatch_def ValueError_def VERSION_def
        bytes_hex_def hex_digit_def)
    apply (insert v0)
    apply blast
    done
  have field: "py_slice 37 70 ?E = toy_point 21"
    by code_simp
  have e8: "py_slice 0 4 ?E = VERSION" "toy_point 21 \<noteq> serialize toy (public_key toy 8)"
    by code_simp+
  show "decrypt toy ?E 8 =
     Inl (PyException ''ValueError''
            (''failed to decrypt message: ''
             @ exc_msg (recipient_mismatch (pk_hex toy (public_key toy 8)) (toy_point 21)))
            (Some (recipient_mismatch (pk_hex toy (public_key toy 8)) (toy_point 21))))"
    apply (rule raised)
    apply (rule exI [of _ "recipient_mismatch (pk_hex toy (public_key toy 8)) (toy_point 21)"])
    apply (rule conjI)
     apply (simp add: ex recipient_mismatch_def ValueError_def)
    apply (simp only: field)
    apply (insert e8)
    apply blast
    done
  have p: "py_slice 0 4 ?P = VERSION" "py_slice 37 70 ?P = serialize toy (public_key toy 7)"
    "PublicKey toy (py_slice 4 37 ?P) = Inl (PyException ''ValueError'' ''invalid public key'' None)"
    by code_simp+
  show "decrypt toy ?P 7 =
     Inl (PyException ''ValueError'' ''failed to decrypt message: invalid public key''
            (Some (PyException ''ValueError'' ''invalid public key'' None)))"
    apply (rule raised)
    apply (rule exI [of _ "PyException ''ValueError'' ''invalid public key'' None"])
    apply (rule conjI)
     apply (simp add: ex)
    apply (insert p)
    apply blast
    done
  have c1: "py_slice 0 4 ?E = VERSION" "py_slice 37 70 ?E = serialize ?C1 (public_key ?C1 7)"
    "PublicKey ?C1 (py_slice 4 37 ?E) = Inr 15"
    "pk_derive_child ?C1 15 7 ?inv = Inl (PyException ''RuntimeError'' ''sender child'' None)"
    by code_simp+
  show "decrypt ?C1 ?E 7 =
     Inl (PyException ''ValueError'' ''failed to decrypt message: sender child''
            (Some (PyException ''RuntimeError'' ''sender child'' None)))"
    apply (rule raised)
    apply (rule exI [of _ "PyException ''RuntimeError'' ''sender child'' None"])
    apply (rule conjI)
     apply (simp add: ex)
    apply (insert c1)
    apply blast
    done
  have c2: "py_slice 0 4 ?E = VERSION" "py_slice 37 70 ?E = serialize ?C2 (public_key ?C2 7)"
    "PublicKey ?C2 (py_slice 4 37 ?E) = Inr 15"
    "pk_derive_child ?C2 15 7 ?inv = Inr 92"
    "sk_derive_child ?C2 7 15 ?inv = Inl (PyException ''RuntimeError'' ''recipient child'' None)"
    by code_simp+
  show "decrypt ?C2 ?E 7 =
     Inl (PyException ''ValueError'' ''failed to decrypt message: recipient child''
            (Some (PyException ''RuntimeError'' ''recipient child'' None)))"
    apply (rule raised)
    apply (rule exI [of _ "PyException ''RuntimeError'' ''recipient child'' None"])
    apply (rule conjI)
     apply (simp add: ex)
    apply (insert c2)
    apply blast
    done
  have c3: "py_slice 0 4 ?E = VERSION" "py_slice 37 70 ?E = serialize ?C3 (public_key ?C3 7)"
    "PublicKey ?C3 (py_slice 4 37 ?E) = Inr 15"
    "pk_derive_child ?C3 15 7 ?inv = Inr 92"
    "sk_derive_child ?C3 7 15 ?inv = Inr 118"
    "pk_derive_shared_secret ?C3 92 118 = Inl (PyException ''TypeError'' ''shared secret'' None)"
    by code_simp+
  show "decrypt ?C3 ?E 7 =
     Inl (PyException ''ValueError'' ''failed to decrypt message: shared secret''
            (Some (PyException ''TypeError'' ''shared secret'' None)))"
    apply (rule raised)
    apply (rule exI [of _ "PyException ''TypeError'' ''shared secret'' None"])
    apply (rule conjI)
     apply (simp add: ex)
    apply (insert c3)
    apply blast
    done
  have f: "py_slice 0 4 ?F = VERSION" "py_slice 37 70 ?F = serialize toy (public_key toy 7)"
    "PublicKey toy (py_slice 4 37 ?F) = Inr 15"
    "pk_derive_child toy 15 7
       (''2-message encryption-'' @ b64encode (py_slice 70 102 ?F)) = Inr 92"
    "sk_derive_child toy 7 15
       (''2-message encryption-'' @ b64encode (py_slice 70 102 ?F)) = Inr 118"
    "pk_derive_shared_secret toy 92 118 = Inr (2 # ?key)"
    "gcm_decrypt_and_verify toy (drop 1 (2 # ?key)) (py_slice 0 32 (drop 102 ?F))
       (py_slice_neg_stop 32 16 (drop 102 ?F)) (py_slice_neg_start 16 (drop 102 ?F))
     = Inl (PyException ''ValueError'' ''MAC check failed'' None)"
    by code_simp+
  show "decrypt toy ?F 7 =
     Inl (PyException ''ValueError'' ''failed to decrypt message: MAC check failed''
            (Some (PyException ''ValueError'' ''MAC check failed'' None)))"
    apply (rule raised)
    apply (rule exI [of _ "PyException ''ValueError'' ''MAC check failed'' None"])
    apply (rule conjI)
     apply (simp add: ex)
    apply (insert f)
    apply blast
    done
  have "py_slice 0 4 ?E = VERSION"
    by code_simp
  moreover have "py_slice 37 70 ?E \<noteq> serialize toy (public_key toy 8)"
    by code_simp
  ultimately show "decrypt toy [] 7 \<noteq> decrypt toy ?E 8"
    using v0 decrypt_failure_single_kind [where C = toy and message = "[]" and recipient = 7
        and C\<^sub>2 = toy and message\<^sub>2 = ?E and recipient\<^sub>2 = 8]
    by blast
qed

text \<open>
  C5 as stated says as well that \<open>decrypt\<close> never distinguishes which stage failed and
  never raises another kind. An empty input fails at the version check, an envelope of
  150 bytes with the right version and a zeroed recipient field fails at the recipient
  check, and the two exceptions have the same type, different messages and the cause of
  their own stage. And when the shared secret's computation raises \<open>KeyboardInterrupt\<close>,
  which is not an instance of \<open>Exception\<close>, that exception leaves \<open>decrypt\<close> as it is.
\<close>

theorem decrypt_failure_tells_stage:
  "(\<exists>e1 e2. decrypt toy [] 7 = Inl e1
         \<and> decrypt toy (VERSION @ replicate 146 0) 7 = Inl e2
         \<and> exc_type e1 = exc_type e2
         \<and> exc_msg e1 \<noteq> exc_msg e2
         \<and> exc_cause e1 = Some (version_mismatch [])
         \<and> exc_cause e2 = Some (recipient_mismatch (pk_hex toy (public_key toy 7))
                                                   (replicate 33 0)))
   \<and> decrypt (toy\<lparr>pk_derive_shared_secret :=
                     \<lambda>P x. Inl (PyException ''KeyboardInterrupt'' [] None)\<rparr>)
         (VERSION @ toy_point 15 @ toy_point 21 @ replicate 32 0 @ replicate 32 0
          @ [105, 106, 107] @ replicate 16 166) 7
       = Inl (PyException ''KeyboardInterrupt'' [] None)"
proof
  have v: "decrypt_body toy [] 7 = Inl (version_mismatch [])"
    by (simp add: decrypt_body_def py_slice_def VERSION_def)
  have "py_slice 37 70 (VERSION @ replicate 146 (0 :: byte)) = replicate 33 0"
    by code_simp
  moreover have "replicate 33 (0 :: byte) \<noteq> serialize toy (public_key toy 7)"
    by code_simp
  moreover have "py_slice 0 4 (VERSION @ replicate 146 (0 :: byte)) = VERSION"
    by (simp add: py_slice_def VERSION_def)
  ultimately have r: "decrypt_body toy (VERSION @ replicate 146 0) 7 =
      Inl (recipient_mismatch (pk_hex toy (public_key toy 7)) (replicate 33 0))"
    by (simp add: decrypt_body_def)
  have "exc_msg (version_mismatch []) \<noteq>
        exc_msg (recipient_mismatch (pk_hex toy (public_key toy 7)) (replicate 33 0))"
    by (simp add: version_mismatch_def recipient_mismatch_def ValueError_def)
  moreover have "is_Exception (version_mismatch [])"
    "is_Exception (recipient_mismatch (pk_hex toy (public_key toy 7)) (replicate 33 0))"
    by (simp_all add: version_mismatch_def recipient_mismatch_def ValueError_def
        is_Exception_def base_exception_only_def)
  ultimately show "\<exists>e1 e2. decrypt toy [] 7 = Inl e1
         \<and> decrypt toy (VERSION @ replicate 146 0) 7 = Inl e2
         \<and> exc_type e1 = exc_type e2
         \<and> exc_msg e1 \<noteq> exc_msg e2
         \<and> exc_cause e1 = Some (version_mismatch [])
         \<and> exc_cause e2 = Some (recipient_mismatch (pk_hex toy (public_key toy 7))
                                                   (replicate 33 0))"
    by (simp add: decrypt_def v r decrypt_failure_def)
  show "decrypt (toy\<lparr>pk_derive_shared_secret :=
                     \<lambda>P x. Inl (PyException ''KeyboardInterrupt'' [] None)\<rparr>)
         (VERSION @ toy_point 15 @ toy_point 21 @ replicate 32 0 @ replicate 32 0
          @ [105, 106, 107] @ replicate 16 166) 7
       = Inl (PyException ''KeyboardInterrupt'' [] None)"
    by code_simp
qed

text \<open>
  C6. In \<open>encrypt\<close> and in \<open>decrypt\<close>, when the child keys derived for the invoice number
  \<open>2-message encryption-\<close> followed by the base64 of the key id give a 33-byte shared
  secret \<open>parity # key\<close>, the key handed to the cipher is \<open>key\<close>, 32 bytes long; the
  result does not depend on the leading byte \<open>parity\<close>.
\<close>

theorem symmetric_key_is_shared_secret_tail:
  "(sk_derive_child C a B (''2-message encryption-'' @ b64encode (fst (randbytes 32 g)))
        = Inr sender_child
      \<and> pk_derive_child C B a (''2-message encryption-'' @ b64encode (fst (randbytes 32 g)))
        = Inr recipient_child
      \<and> sk_derive_shared_secret C sender_child recipient_child = Inr (parity # key)
      \<and> length (parity # key) = 33
    \<longrightarrow> length key = 32
      \<and> encrypt C m a B g =
          (case gcm_encrypt_and_digest C key (fst (randbytes 32 (snd (randbytes 32 g)))) m of
             Inl e \<Rightarrow> Inl e
           | Inr (ciphertext, auth_tag) \<Rightarrow>
               Inr (VERSION @ serialize C (public_key C a) @ serialize C B
                    @ fst (randbytes 32 g) @ fst (randbytes 32 (snd (randbytes 32 g)))
                    @ ciphertext @ auth_tag)))
   \<and> (py_slice 0 4 envelope = VERSION
      \<and> py_slice 37 70 envelope = serialize C (public_key C b)
      \<and> PublicKey C (py_slice 4 37 envelope) = Inr sender
      \<and> pk_derive_child C sender b
           (''2-message encryption-'' @ b64encode (py_slice 70 102 envelope)) = Inr sender_child'
      \<and> sk_derive_child C b sender
           (''2-message encryption-'' @ b64encode (py_slice 70 102 envelope)) = Inr recipient_child'
      \<and> pk_derive_shared_secret C sender_child' recipient_child' = Inr (parity' # key')
      \<and> length (parity' # key') = 33
    \<longrightarrow> length key' = 32
      \<and> decrypt C envelope b =
          (case gcm_decrypt_and_verify C key'
                  (py_slice 0 32 (drop 102 envelope))
                  (py_slice_neg_stop 32 16 (drop 102 envelope))
                  (py_slice_neg_start 16 (drop 102 envelope)) of
             Inl e \<Rightarrow> Inl (decrypt_failure e)
           | Inr plaintext \<Rightarrow> Inr plaintext))"
proof (intro conjI impI)
  assume h: "sk_derive_child C a B (''2-message encryption-'' @ b64encode (fst (randbytes 32 g)))
        = Inr sender_child
      \<and> pk_derive_child C B a (''2-message encryption-'' @ b64encode (fst (randbytes 32 g)))
        = Inr recipient_child
      \<and> sk_derive_shared_secret C sender_child recipient_child = Inr (parity # key)
      \<and> length (parity # key) = 33"
  then show "length key = 32" by simp
  have iv: "fst (randbytes 32 (snd (randbytes 32 g))) = map g [32..<64]"
    using randbytes_twice [of 32 32 g] by simp
  have kid: "fst (randbytes 32 g) = map g [0..<32]"
    by (rule randbytes_fst)
  from h have "sk_derive_child C a B
        (''2-message encryption-'' @ b64encode (map g [0..<32])) = Inr sender_child"
    "pk_derive_child C B a
          (''2-message encryption-'' @ b64encode (map g [0..<32])) = Inr recipient_child"
    "sk_derive_shared_secret C sender_child recipient_child = Inr (parity # key)"
    unfolding kid by blast+
  from encrypt_unfold [OF this, of m]
  show "encrypt C m a B g =
          (case gcm_encrypt_and_digest C key (fst (randbytes 32 (snd (randbytes 32 g)))) m of
             Inl e \<Rightarrow> Inl e
           | Inr (ciphertext, auth_tag) \<Rightarrow>
               Inr (VERSION @ serialize C (public_key C a) @ serialize C B
                    @ fst (randbytes 32 g) @ fst (randbytes 32 (snd (randbytes 32 g)))
                    @ ciphertext @ auth_tag))"
    unfolding iv kid by simp
next
  assume h: "py_slice 0 4 envelope = VERSION
      \<and> py_slice 37 70 envelope = serialize C (public_key C b)
      \<and> PublicKey C (py_slice 4 37 envelope) = Inr sender
      \<and> pk_derive_child C sender b
           (''2-message encryption-'' @ b64encode (py_slice 70 102 envelope)) = Inr sender_child'
      \<and> sk_derive_child C b sender
           (''2-message encryption-'' @ b64encode (py_slice 70 102 envelope)) = Inr recipient_child'
      \<and> pk_derive_shared_secret C sender_child' recipient_child' = Inr (parity' # key')
      \<and> length (parity' # key') = 33"
  then show "length key' = 32" by simp
  from h have "py_slice 0 4 envelope = VERSION"
    "py_slice 37 70 envelope = serialize C (public_key C b)"
    "PublicKey C (py_slice 4 37 envelope) = Inr sender"
    "pk_derive_child C sender b
          (''2-message encryption-'' @ b64encode (py_slice 70 102 envelope)) = Inr sender_child'"
    "sk_derive_child C b sender (''2-message encryption-'' @ b64encode (py_slice 70 102 envelope))
       = Inr recipient_child'"
    "pk_derive_shared_secret C sender_child' recipient_child' = Inr (parity' # key')"
    by blast+
  from decrypt_unfold [OF this]
  show "decrypt C envelope b =
          (case gcm_decrypt_and_verify C key'
                  (py_slice 0 32 (drop 102 envelope))
                  (py_slice_neg_stop 32 16 (drop 102 envelope))
                  (py_slice_neg_start 16 (drop 102 envelope)) of
             Inl e \<Rightarrow> Inl (decrypt_failure e)
           | Inr plaintext \<Rightarrow> Inr plaintext)"
    by simp
qed

theorem symmetric_key_is_shared_secret_tail_witness:
  "encrypt toy [1, 2, 3] 5 21 zero_tape =
       Inr (VERSION @ toy_point 15 @ toy_point 21 @ replicate 32 0 @ replicate 32 0
            @ [105, 106, 107] @ replicate 16 166)
   \<and> decrypt toy (VERSION @ toy_point 15 @ toy_point 21 @ replicate 32 0 @ replicate 32 0
                   @ [105, 106, 107] @ replicate 16 166) 7 = Inr [1, 2, 3]"
proof -
  let ?inv = "''2-message encryption-'' @ b64encode (fst (randbytes 32 zero_tape))"
  let ?key = "replicate 31 0 @ [104 :: byte]"
  let ?env = "VERSION @ toy_point 15 @ toy_point 21 @ replicate 32 0 @ replicate 32 0
                   @ [105, 106, 107] @ replicate 16 166"
  have e: "sk_derive_child toy 5 21 ?inv = Inr 116 \<and> pk_derive_child toy 21 5 ?inv = Inr 98
           \<and> sk_derive_shared_secret toy 116 98 = Inr (2 # ?key) \<and> length (2 # ?key) = 33"
    by code_simp
  have d: "py_slice 0 4 ?env = VERSION
      \<and> py_slice 37 70 ?env = serialize toy (public_key toy 7)
      \<and> PublicKey toy (py_slice 4 37 ?env) = Inr 15
      \<and> pk_derive_child toy 15 7
           (''2-message encryption-'' @ b64encode (py_slice 70 102 ?env)) = Inr 92
      \<and> sk_derive_child toy 7 15
           (''2-message encryption-'' @ b64encode (py_slice 70 102 ?env)) = Inr 118
      \<and> pk_derive_shared_secret toy 92 118 = Inr (2 # ?key)
      \<and> length (2 # ?key) = 33"
    by code_simp
  have g: "(case gcm_encrypt_and_digest toy ?key
                   (fst (randbytes 32 (snd (randbytes 32 zero_tape)))) [1, 2, 3] of
             Inl e \<Rightarrow> Inl e
           | Inr (ciphertext, auth_tag) \<Rightarrow>
               Inr (VERSION @ serialize toy (public_key toy 5) @ serialize toy 21
                    @ fst (randbytes 32 zero_tape)
                    @ fst (randbytes 32 (snd (randbytes 32 zero_tape)))
                    @ ciphertext @ auth_tag)) = Inr ?env"
    by code_simp
  have v: "(case gcm_decrypt_and_verify toy ?key
                  (py_slice 0 32 (drop 102 ?env))
                  (py_slice_neg_stop 32 16 (drop 102 ?env))
                  (py_slice_neg_start 16 (drop 102 ?env)) of
             Inl e \<Rightarrow> Inl (decrypt_failure e)
           | Inr plaintext \<Rightarrow> Inr plaintext) = Inr [1, 2, 3]"
    by code_simp
  from symmetric_key_is_shared_secret_tail [where C = toy and a = 5 and B = 21
      and g = zero_tape and sender_child = 116 and recipient_child = 98 and parity = 2
      and key = ?key and m = "[1, 2, 3]" and envelope = ?env and b = 7 and sender = 15
      and sender_child' = 92 and recipient_child' = 118 and parity' = 2 and key' = ?key]
    e d
  show ?thesis
    unfolding g v by blast
qed

text \<open>
  C10. For every message (the empty one included), \<open>encrypt\<close> returns the 102-byte
  header (the 4-byte version, the two 33-byte serialized public keys, the 32-byte key
  id, which is the first draw of 32 random bytes), the 32-byte IV (the second draw), and
  the ciphertext and the 16-byte tag that the cipher returns for the message under that
  IV and the key \<open>shared_secret[1:]\<close> of the two derived child keys; the ciphertext is as
  long as the message, and the envelope is 150 bytes longer than the message.
\<close>

theorem encrypt_length:
  assumes "key_agreement C" and "aead_correct C message"
  shows "\<exists>sender_child recipient_child shared_secret ciphertext auth_tag.
           sk_derive_child C a (public_key C b)
             (''2-message encryption-'' @ b64encode (fst (randbytes 32 g))) = Inr sender_child
         \<and> pk_derive_child C (public_key C b) a
             (''2-message encryption-'' @ b64encode (fst (randbytes 32 g))) = Inr recipient_child
         \<and> sk_derive_shared_secret C sender_child recipient_child = Inr shared_secret
         \<and> gcm_encrypt_and_digest C (drop 1 shared_secret)
             (fst (randbytes 32 (snd (randbytes 32 g)))) message = Inr (ciphertext, auth_tag)
         \<and> encrypt C message a (public_key C b) g =
             Inr (VERSION @ serialize C (public_key C a) @ serialize C (public_key C b)
                  @ fst (randbytes 32 g)
                  @ fst (randbytes 32 (snd (randbytes 32 g)))
                  @ ciphertext @ auth_tag)
         \<and> length VERSION = 4
         \<and> length (serialize C (public_key C a)) = 33
         \<and> length (serialize C (public_key C b)) = 33
         \<and> length (fst (randbytes 32 g)) = 32
         \<and> length (VERSION @ serialize C (public_key C a) @ serialize C (public_key C b)
                    @ fst (randbytes 32 g)) = 102
         \<and> length (fst (randbytes 32 (snd (randbytes 32 g)))) = 32
         \<and> length ciphertext = length message
         \<and> length auth_tag = 16
         \<and> length (VERSION @ serialize C (public_key C a) @ serialize C (public_key C b)
                    @ fst (randbytes 32 g)
                    @ fst (randbytes 32 (snd (randbytes 32 g)))
                    @ ciphertext @ auth_tag) = length message + 150"
proof -
  have iv: "fst (randbytes 32 (snd (randbytes 32 g))) = map g [32..<64]"
    using randbytes_twice [of 32 32 g] by simp
  have kid: "fst (randbytes 32 g) = map g [0..<32]"
    by (rule randbytes_fst)
  from encrypt_succeeds [OF assms, of a b g] obtain a' b' secret ct tag where
    h: "sk_derive_child C a (public_key C b)
          (''2-message encryption-'' @ b64encode (map g [0..<32])) = Inr a'"
       "pk_derive_child C (public_key C b) a
          (''2-message encryption-'' @ b64encode (map g [0..<32])) = Inr (public_key C b')"
       "sk_derive_shared_secret C a' (public_key C b') = Inr secret"
       "gcm_encrypt_and_digest C (drop 1 secret) (map g [32..<64]) message = Inr (ct, tag)"
       "length ct = length message" "length tag = 16"
       "encrypt C message a (public_key C b) g =
          Inr (VERSION @ serialize C (public_key C a) @ serialize C (public_key C b)
               @ map g [0..<32] @ map g [32..<64] @ ct @ tag)"
    by blast
  have len: "length (serialize C (public_key C a)) = 33"
    "length (serialize C (public_key C b)) = 33"
    using assms(1) by (simp_all add: key_agreement_def)
  have l: "length VERSION = 4" "length (map g [0..<32]) = 32" "length (map g [32..<64]) = 32"
    by (simp_all add: VERSION_def)
  show ?thesis
    unfolding iv kid
    using h len l
    by (intro exI [of _ a'] exI [of _ "public_key C b'"] exI [of _ secret] exI [of _ ct]
        exI [of _ tag]) (simp del: map_upt_Suc upt_Suc)
qed

theorem encrypt_length_witness:
  "encrypt toy [1, 2, 3] 5 (public_key toy 7) tape =
     Inr (VERSION @ toy_point 15 @ toy_point 21 @ fst (randbytes 32 tape)
          @ fst (randbytes 32 (snd (randbytes 32 tape)))
          @ [25, 26, 27] @ replicate 16 102)
   \<and> length (VERSION @ toy_point 15 @ toy_point 21 @ fst (randbytes 32 tape)
          @ fst (randbytes 32 (snd (randbytes 32 tape)))
          @ [25, 26, 27] @ replicate 16 (102 :: byte)) = 153
   \<and> encrypt toy [] 5 (public_key toy 7) tape =
     Inr (VERSION @ toy_point 15 @ toy_point 21 @ fst (randbytes 32 tape)
          @ fst (randbytes 32 (snd (randbytes 32 tape)))
          @ [] @ replicate 16 24)
   \<and> length (VERSION @ toy_point 15 @ toy_point 21 @ fst (randbytes 32 tape)
          @ fst (randbytes 32 (snd (randbytes 32 tape)))
          @ [] @ replicate 16 (24 :: byte)) = 150"
proof -
  let ?inv = "''2-message encryption-'' @ b64encode (fst (randbytes 32 tape))"
  let ?iv = "fst (randbytes 32 (snd (randbytes 32 tape)))"
  have k: "sk_derive_child toy 5 (public_key toy 7) ?inv = Inr 10"
    "pk_derive_child toy (public_key toy 7) 5 ?inv = Inr 36"
    "sk_derive_shared_secret toy 10 36 = Inr (2 # replicate 31 0 @ [104])"
    by code_simp+
  have c: "gcm_encrypt_and_digest toy (drop 1 (2 # replicate 31 0 @ [104])) ?iv [1, 2, 3]
             = Inr ([25, 26, 27], replicate 16 102)"
    "gcm_encrypt_and_digest toy (drop 1 (2 # replicate 31 0 @ [104])) ?iv []
             = Inr ([], replicate 16 24)"
    by code_simp+
  have s: "serialize toy (public_key toy 5) = toy_point 15"
    "serialize toy (public_key toy 7) = toy_point 21"
    by code_simp+
  have first: "encrypt toy [1, 2, 3] 5 (public_key toy 7) tape =
     Inr (VERSION @ toy_point 15 @ toy_point 21 @ fst (randbytes 32 tape) @ ?iv
          @ [25, 26, 27] @ replicate 16 102)
   \<and> length (VERSION @ toy_point 15 @ toy_point 21 @ fst (randbytes 32 tape) @ ?iv
          @ [25, 26, 27] @ replicate 16 (102 :: byte)) = 153"
  proof -
    from encrypt_length [OF toy_key_agreement toy_aead_correct,
        where a = 5 and b = 7 and g = tape and message = "[1, 2, 3]"]
    obtain sc rc ss ct tg where
      h: "sk_derive_child toy 5 (public_key toy 7) ?inv = Inr sc"
        "pk_derive_child toy (public_key toy 7) 5 ?inv = Inr rc"
        "sk_derive_shared_secret toy sc rc = Inr ss"
        "gcm_encrypt_and_digest toy (drop 1 ss) ?iv [1, 2, 3] = Inr (ct, tg)"
        "encrypt toy [1, 2, 3] 5 (public_key toy 7) tape =
           Inr (VERSION @ serialize toy (public_key toy 5) @ serialize toy (public_key toy 7)
                @ fst (randbytes 32 tape) @ ?iv @ ct @ tg)"
        "length (VERSION @ serialize toy (public_key toy 5) @ serialize toy (public_key toy 7)
                @ fst (randbytes 32 tape) @ ?iv @ ct @ tg) = length [1, 2, 3 :: byte] + 150"
      by blast
    from h(1,2) k(1,2) have "sc = 10" "rc = 36" by simp_all
    with h(3) k(3) have "ss = 2 # replicate 31 0 @ [104]" by simp
    with h(4) c(1) have "ct = [25, 26, 27]" "tg = replicate 16 102" by simp_all
    with h(5,6) show ?thesis
      unfolding s by simp
  qed
  have second: "encrypt toy [] 5 (public_key toy 7) tape =
     Inr (VERSION @ toy_point 15 @ toy_point 21 @ fst (randbytes 32 tape) @ ?iv
          @ [] @ replicate 16 24)
   \<and> length (VERSION @ toy_point 15 @ toy_point 21 @ fst (randbytes 32 tape) @ ?iv
          @ [] @ replicate 16 (24 :: byte)) = 150"
  proof -
    from encrypt_length [OF toy_key_agreement toy_aead_correct,
        where a = 5 and b = 7 and g = tape and message = "[]"]
    obtain sc rc ss ct tg where
      h: "sk_derive_child toy 5 (public_key toy 7) ?inv = Inr sc"
        "pk_derive_child toy (public_key toy 7) 5 ?inv = Inr rc"
        "sk_derive_shared_secret toy sc rc = Inr ss"
        "gcm_encrypt_and_digest toy (drop 1 ss) ?iv [] = Inr (ct, tg)"
        "encrypt toy [] 5 (public_key toy 7) tape =
           Inr (VERSION @ serialize toy (public_key toy 5) @ serialize toy (public_key toy 7)
                @ fst (randbytes 32 tape) @ ?iv @ ct @ tg)"
        "length (VERSION @ serialize toy (public_key toy 5) @ serialize toy (public_key toy 7)
                @ fst (randbytes 32 tape) @ ?iv @ ct @ tg) = length ([] :: bytes) + 150"
      by blast
    from h(1,2) k(1,2) have "sc = 10" "rc = 36" by simp_all
    with h(3) k(3) have "ss = 2 # replicate 31 0 @ [104]" by simp
    with h(4) c(2) have "ct = []" "tg = replicate 16 24" by simp_all
    with h(5,6) show ?thesis
      unfolding s by simp
  qed
  from first second show ?thesis
    by blast
qed

section \<open>Fixed-width integers and the varint encoder\<close>

lemma uint_byte_of_int: "uint (word_of_int k :: byte) = k mod 256"
  by (simp add: uint_word_of_int)

lemma length_uint_le: "length (uint_le w n) = w"
  by (induction w arbitrary: n) simp_all

lemma from_le_uint_le: "from_le (uint_le w n) = n mod 256 ^ w"
proof (induction w arbitrary: n)
  case 0
  then show ?case by simp
next
  case (Suc w)
  have "n mod (256 * 256 ^ w) = 256 * (n div 256 mod 256 ^ w) + n mod 256"
    by (rule zmod_zmult2_eq) simp
  with Suc show ?case
    by (simp add: uint_byte_of_int)
qed

lemma from_le_uint_le_fits:
  assumes "0 \<le> n" and "n < 256 ^ w"
  shows "from_le (uint_le w n) = n"
  using assms by (simp add: from_le_uint_le)

lemma uint_le_numeral:
  "uint_le (numeral k) n = of_int (n mod 256) # uint_le (pred_numeral k) (n div 256)"
  by (simp add: numeral_eq_Suc)

text \<open>
  C7. For every \<open>n\<close> in the unsigned 64-bit range the varint encoder follows the
  CompactSize rule: below \<open>0xfd\<close> the single byte \<open>n\<close>; up to \<open>0xffff\<close> the byte \<open>0xfd\<close> and
  two bytes whose little-endian value is \<open>n\<close>; up to \<open>0xffffffff\<close> the byte \<open>0xfe\<close> and four
  such bytes; else the byte \<open>0xff\<close> and eight such bytes. It fails with RangeError for a
  negative \<open>n\<close> and for \<open>n\<close> beyond the 64-bit unsigned range, and it gives the literal
  vectors \<open>fd fd 00\<close> for \<open>0xfd\<close> and \<open>fe 78 56 34 12\<close> for \<open>0x12345678\<close>.
\<close>

theorem encode_varint_compact_size:
  "(0 \<le> n \<and> n < 0xfd \<longrightarrow> encode_varint n = Inr [of_int n])
   \<and> (0xfd \<le> n \<and> n \<le> 0xffff \<longrightarrow>
        (\<exists>payload. encode_varint n = Inr (0xfd # payload)
                   \<and> length payload = 2 \<and> from_le payload = n))
   \<and> (0xffff < n \<and> n \<le> 0xffffffff \<longrightarrow>
        (\<exists>payload. encode_varint n = Inr (0xfe # payload)
                   \<and> length payload = 4 \<and> from_le payload = n))
   \<and> (0xffffffff < n \<and> n \<le> 0xffffffffffffffff \<longrightarrow>
        (\<exists>payload. encode_varint n = Inr (0xff # payload)
                   \<and> length payload = 8 \<and> from_le payload = n))
   \<and> (n < 0 \<or> 0xffffffffffffffff < n \<longrightarrow> encode_varint n = Inl RangeError)
   \<and> encode_varint 0xfd = Inr [0xfd, 0xfd, 0x00]
   \<and> encode_varint 0x12345678 = Inr [0xfe, 0x78, 0x56, 0x34, 0x12]"
proof -
  have small: "encode_varint n = Inr [of_int n]" if "0 \<le> n \<and> n < 0xfd"
    using that by (simp add: encode_varint_def)
  have two: "\<exists>payload. encode_varint n = Inr (0xfd # payload)
                   \<and> length payload = 2 \<and> from_le payload = n"
    if "0xfd \<le> n \<and> n \<le> 0xffff"
  proof -
    have "encode_varint n = Inr (0xfd # uint_le 2 n)"
      using that by (simp add: encode_varint_def)
    moreover have "from_le (uint_le 2 n) = n"
      using that by (intro from_le_uint_le_fits) simp_all
    ultimately show ?thesis
      by (simp add: length_uint_le)
  qed
  have four: "\<exists>payload. encode_varint n = Inr (0xfe # payload)
                   \<and> length payload = 4 \<and> from_le payload = n"
    if "0xffff < n \<and> n \<le> 0xffffffff"
  proof -
    have "encode_varint n = Inr (0xfe # uint_le 4 n)"
      using that by (simp add: encode_varint_def)
    moreover have "from_le (uint_le 4 n) = n"
      using that by (intro from_le_uint_le_fits) simp_all
    ultimately show ?thesis
      by (simp add: length_uint_le)
  qed
  have eight: "\<exists>payload. encode_varint n = Inr (0xff # payload)
                   \<and> length payload = 8 \<and> from_le payload = n"
    if "0xffffffff < n \<and> n \<le> 0xffffffffffffffff"
  proof -
    have "encode_varint n = Inr (0xff # uint_le 8 n)"
      using that by (simp add: encode_varint_def)
    moreover have "from_le (uint_le 8 n) = n"
      using that by (intro from_le_uint_le_fits) simp_all
    ultimately show ?thesis
      by (simp add: length_uint_le)
  qed
  have range: "encode_varint n = Inl RangeError" if "n < 0 \<or> 0xffffffffffffffff < n"
    using that by (auto simp add: encode_varint_def)
  have v1: "encode_varint 0xfd = Inr [0xfd, 0xfd, 0x00]"
    by (simp add: encode_varint_def uint_le_numeral)
  have v2: "encode_varint 0x12345678 = Inr [0xfe, 0x78, 0x56, 0x34, 0x12]"
    by (simp add: encode_varint_def uint_le_numeral)
  from small two four eight range v1 v2 show ?thesis
    by blast
qed

theorem encode_varint_compact_size_witness:
  "encode_varint 0 = Inr [0x00]
   \<and> encode_varint 0xfc = Inr [0xfc]
   \<and> (\<exists>payload. encode_varint 0xabcd = Inr (0xfd # payload)
                \<and> length payload = 2 \<and> from_le payload = 0xabcd)
   \<and> (\<exists>payload. encode_varint 0x010000 = Inr (0xfe # payload)
                \<and> length payload = 4 \<and> from_le payload = 0x010000)
   \<and> (\<exists>payload. encode_varint 0x1234567890abcdef = Inr (0xff # payload)
                \<and> length payload = 8 \<and> from_le payload = 0x1234567890abcdef)
   \<and> encode_varint (- 1) = Inl RangeError
   \<and> encode_varint 0x010000000000000000 = Inl RangeError"
  using encode_varint_compact_size [of 0] encode_varint_compact_size [of "0xfc"]
    encode_varint_compact_size [of "0xabcd"] encode_varint_compact_size [of "0x010000"]
    encode_varint_compact_size [of "0x1234567890abcdef"]
    encode_varint_compact_size [of "- 1"]
    encode_varint_compact_size [of "0x010000000000000000"]
  by simp

text \<open>The other vectors of \<open>test_unsigned_to_varint\<close> (lines 15 to 30).\<close>

lemma encode_varint_test_vectors:
  "encode_varint 0xabcd = Inr [0xfd, 0xcd, 0xab]"
  "encode_varint 0x010000 = Inr [0xfe, 0x00, 0x00, 0x01, 0x00]"
  "encode_varint 0x0100000000 = Inr [0xff, 0x00, 0x00, 0x00, 0x00, 0x01, 0x00, 0x00, 0x00]"
  "encode_varint 0x1234567890abcdef = Inr [0xff, 0xef, 0xcd, 0xab, 0x90, 0x78, 0x56, 0x34, 0x12]"
  by (simp_all add: encode_varint_def uint_le_numeral)

section \<open>DER signatures\<close>

lemma from_le_append: "from_le (xs @ ys) = from_le xs + 256 ^ length xs * from_le ys"
  by (induction xs) (simp_all add: algebra_simps)

lemma from_be_snoc: "from_be (bs @ [b]) = 256 * from_be bs + uint b"
  by (simp add: from_be_def)

lemma from_be_zero_Cons: "from_be (0 # bs) = from_be bs"
  by (simp add: from_be_def from_le_append)

lemma from_be_minimal_be: "0 \<le> x \<Longrightarrow> from_be (minimal_be x) = x"
proof (induction x rule: minimal_be.induct)
  case (1 n)
  show ?case
  proof (cases "n \<le> 0")
    case True
    with 1(2) have "n = 0" by simp
    then show ?thesis
      by (simp add: minimal_be.simps [of 0] from_be_def)
  next
    case False
    then have "from_be (minimal_be (n div 256)) = n div 256"
      using 1 by simp
    with False show ?thesis
      by (simp add: minimal_be.simps [of n] from_be_snoc uint_byte_of_int)
  qed
qed

lemma length_minimal_be: "0 \<le> x \<Longrightarrow> x < 256 ^ k \<Longrightarrow> length (minimal_be x) \<le> k"
proof (induction k arbitrary: x)
  case 0
  then have "x = 0" by simp
  then show ?case by (simp add: minimal_be.simps [of 0])
next
  case (Suc k)
  show ?case
  proof (cases "x \<le> 0")
    case True
    then show ?thesis by (simp add: minimal_be.simps [of x])
  next
    case False
    have "x div 256 < 256 ^ k"
      using Suc.prems by (simp add: div_less_iff_less_mult)  
    moreover have "0 \<le> x div 256"
      using Suc.prems by simp
    ultimately have "length (minimal_be (x div 256)) \<le> k"
      by (rule Suc.IH [rotated])
    with False show ?thesis
      by (simp add: minimal_be.simps [of x])
  qed
qed

lemma from_be_der_content: "0 \<le> x \<Longrightarrow> from_be (der_content x) = x"
  by (simp add: der_content_def Let_def from_be_zero_Cons from_be_minimal_be)

lemma length_der_content: "0 \<le> x \<Longrightarrow> x < 2 ^ 256 \<Longrightarrow> length (der_content x) \<le> 33"
proof -
  assume "0 \<le> x" "x < 2 ^ 256"
  then have "length (minimal_be x) \<le> 32"
    using length_minimal_be [of x 32] by simp
  then show ?thesis
    by (simp add: der_content_def Let_def)
qed

lemma unat_byte_of_nat: "k < 256 \<Longrightarrow> unat (of_nat k :: byte) = k"
  by (simp add: unat_of_nat)

lemma deserialize_der_sequence:
  assumes "length c1 \<le> 33" and "length c2 \<le> 33"
  defines "body \<equiv> (0x02 # of_nat (length c1) # c1) @ (0x02 # of_nat (length c2) # c2)"
  shows "deserialize_der (0x30 # of_nat (length body) # body) = Inr (from_be c1, from_be c2)"
proof -
  have l1: "unat (of_nat (length c1) :: byte) = length c1"
    and l2: "unat (of_nat (length c2) :: byte) = length c2"
    using assms(1,2) by (simp_all add: unat_byte_of_nat)
  have "length body < 256"
    using assms(1,2) by (simp add: body_def)
  then have lb: "unat (of_nat (length body) :: byte) = length body"
    by (rule unat_byte_of_nat)
  show ?thesis
    unfolding deserialize_der_def
    by (simp add: lb) (simp add: body_def l1 l2)
qed

lemma low_s_symmetric: "low_s n (n - s) = low_s n s"
  unfolding low_s_def by presburger

lemma low_s_range:
  assumes "1 \<le> s" and "s \<le> n - 1"
  shows "1 \<le> low_s n s" and "low_s n s \<le> n div 2"
  using assms unfolding low_s_def by presburger+

text \<open>
  C8. For a curve order \<open>n\<close> of at most 256 bits and \<open>r\<close>, \<open>s\<close> in \<open>[1, n - 1]\<close>, the DER
  encoder gives the same bytes for \<open>(r, s)\<close> and \<open>(r, n - s)\<close>, and decoding the encoding of
  \<open>(r, s)\<close> returns \<open>r\<close> with the low form of \<open>s\<close>: \<open>n - s\<close> if \<open>s > n/2\<close>, else \<open>s\<close>; that
  form is at most \<open>n/2\<close>.
\<close>

theorem serialize_der_low_s:
  assumes "n \<le> 2 ^ 256" and "1 \<le> r" and "r \<le> n - 1" and "1 \<le> s" and "s \<le> n - 1"
  shows "serialize_der n (r, s) = serialize_der n (r, n - s)
       \<and> deserialize_der (serialize_der n (r, s)) = Inr (r, if n div 2 < s then n - s else s)
       \<and> (if n div 2 < s then n - s else s) \<le> n div 2"
proof -
  let ?s = "low_s n s"
  have same: "serialize_der n (r, s) = serialize_der n (r, n - s)"
    by (simp add: serialize_der_def low_s_symmetric)
  have s_range: "1 \<le> ?s" "?s \<le> n div 2"
    using assms(4,5) by (rule low_s_range)+
  then have "?s < 2 ^ 256" "0 \<le> ?s"
    using assms(1) by linarith+
  then have cs: "length (der_content ?s) \<le> 33" "from_be (der_content ?s) = ?s"
    by (simp_all add: length_der_content from_be_der_content)
  have "r < 2 ^ 256" "0 \<le> r"
    using assms(1,2,3) by linarith+
  then have cr: "length (der_content r) \<le> 33" "from_be (der_content r) = r"
    by (simp_all add: length_der_content from_be_der_content)
  have "deserialize_der (serialize_der n (r, s)) = Inr (r, ?s)"
    using deserialize_der_sequence [OF cr(1) cs(1)] cr(2) cs(2)
    by (simp add: serialize_der_def der_integer_def)
  with same s_range(2) show ?thesis
    by (simp add: low_s_def)
qed

theorem serialize_der_low_s_witness:
  "serialize_der secp256k1_n (der_r1, secp256k1_n - der_s1) = serialize_der secp256k1_n (der_r1, der_s1)
   \<and> deserialize_der (serialize_der secp256k1_n (der_r1, secp256k1_n - der_s1)) = Inr (der_r1, der_s1)"
proof -
  have "secp256k1_n \<le> 2 ^ 256" "1 \<le> der_r1" "der_r1 \<le> secp256k1_n - 1"
    "1 \<le> secp256k1_n - der_s1" "secp256k1_n - der_s1 \<le> secp256k1_n - 1"
    by (simp_all add: secp256k1_n_def der_r1_def der_s1_def)
  note der = serialize_der_low_s [OF this]
  have high: "secp256k1_n div 2 < secp256k1_n - der_s1"
    by (simp add: secp256k1_n_def der_s1_def)
  have twice: "secp256k1_n - (secp256k1_n - der_s1) = der_s1"
    by simp
  from der high show ?thesis
    unfolding twice by auto
qed

text \<open>The vectors of \<open>test_der_serialization\<close> (lines 92 to 117).\<close>

lemma der_test_vectors:
  "bytes_hex (serialize_der secp256k1_n (der_r1, der_s1)) =
     ''3045022100fd5647a062d42cdde975ad4796cefd6b5613e731c08e0fb6907f757a60f44b020220350fee392713423ebfcd8026ea29cc95917d823392f07cd6c80f46712650388e''"
  "bytes_hex (serialize_der secp256k1_n (der_r3, der_s3)) =
     ''3044022023f093813911a658ac7cbaeb8ba7828b4067ea3582c78f8bd2c38b1f317489ba022000e1e43145a89f0d9d8524798b8ae2ca60ebf3947e35106d5e1ddf398985a033''"
  "deserialize_der [] = Inl FormatError"
  by code_simp+

section \<open>Base64 and recoverable signatures\<close>

lemma index_of_nth: "distinct xs \<Longrightarrow> i < length xs \<Longrightarrow> index_of xs (xs ! i) = Some i"
proof (induction xs arbitrary: i)
  case Nil
  then show ?case by simp
next
  case (Cons y ys)
  show ?case
  proof (cases i)
    case 0
    then show ?thesis by simp
  next
    case (Suc j)
    with Cons.prems have "ys ! j \<noteq> y" "index_of ys (ys ! j) = Some j"
      using Cons.IH [of j] by auto
    with Suc show ?thesis by simp
  qed
qed

lemma length_b64_alphabet: "length b64_alphabet = 64"
  by (simp add: b64_alphabet_def)

lemma distinct_b64_alphabet: "distinct b64_alphabet"
  by (simp add: b64_alphabet_def)

lemma pad_not_in_b64_alphabet: "CHR ''='' \<notin> set b64_alphabet"
  by (simp add: b64_alphabet_def)

lemma b64_index_char: "i < 64 \<Longrightarrow> b64_index (b64_char i) = Some i"
  unfolding b64_index_def b64_char_def
  by (rule index_of_nth [OF distinct_b64_alphabet]) (simp add: length_b64_alphabet)

lemma b64_char_not_pad: "i < 64 \<Longrightarrow> b64_char i \<noteq> CHR ''=''"
proof
  assume "i < 64" and "b64_char i = CHR ''=''"
  then have "CHR ''='' \<in> set b64_alphabet"
    using nth_mem [of i b64_alphabet] by (simp add: b64_char_def length_b64_alphabet)
  with pad_not_in_b64_alphabet show False ..
qed

lemma split_digit:
  fixes q r b :: nat
  assumes "r < b"
  shows "(q * b + r) div b = q" and "(q * b + r) mod b = r"
  using assms by simp_all

lemma sextet_bound:
  fixes hi lo :: nat
  shows "hi < 4 \<Longrightarrow> lo < 16 \<Longrightarrow> hi * 16 + lo < 64"
    and "hi < 16 \<Longrightarrow> lo < 4 \<Longrightarrow> hi * 4 + lo < 64"
  by linarith+

lemma unat_byte_less: "unat (a :: byte) < 256"
  using unsigned_less [of a, where ?'a = nat] by simp

lemma byte_digits:
  fixes a :: byte
  shows "unat a div 4 < 64" and "unat a div 16 < 16" and "unat a div 64 < 4"
  using unat_byte_less [of a] by (simp_all add: div_less_iff_less_mult)

lemma sextets:
  fixes a b c :: byte
  shows "unat a div 4 < 64"
    and "unat a mod 4 * 16 + unat b div 16 < 64"
    and "unat b mod 16 * 4 + unat c div 64 < 64"
    and "unat c mod 64 < 64"
    and "unat a mod 4 * 16 < 64"
    and "unat b mod 16 * 4 < 64"
proof -
  show "unat a div 4 < 64" by (rule byte_digits)
  show "unat a mod 4 * 16 + unat b div 16 < 64"
    by (rule sextet_bound) (simp_all add: byte_digits)
  show "unat b mod 16 * 4 + unat c div 64 < 64"
    by (rule sextet_bound) (simp_all add: byte_digits)
  show "unat c mod 64 < 64" by simp
  have "unat a mod 4 * 16 + 0 < 64" by (rule sextet_bound) simp_all
  then show "unat a mod 4 * 16 < 64" by simp
  have "unat b mod 16 * 4 + 0 < 64" by (rule sextet_bound) simp_all
  then show "unat b mod 16 * 4 < 64" by simp
qed

lemma b64_group_bytes:
  assumes "i0 * 4 + i1 div 16 = unat a"
    and "i1 mod 16 * 16 + i2 div 4 = unat b"
    and "i2 mod 4 * 64 + i3 = unat c"
  shows "b64_group i0 i1 i2 i3 = [a, b, c]"
  unfolding b64_group_def assms by simp

lemma b64_group_encode:
  fixes a b c :: byte
  shows "b64_group (unat a div 4) (unat a mod 4 * 16 + unat b div 16)
           (unat b mod 16 * 4 + unat c div 64) (unat c mod 64) = [a, b, c]"
proof (rule b64_group_bytes)
  show "unat a div 4 * 4 + (unat a mod 4 * 16 + unat b div 16) div 16 = unat a"
    by (simp add: split_digit byte_digits)
  show "(unat a mod 4 * 16 + unat b div 16) mod 16 * 16
                 + (unat b mod 16 * 4 + unat c div 64) div 4 = unat b"
    by (simp add: split_digit byte_digits)
  show "(unat b mod 16 * 4 + unat c div 64) mod 4 * 64 + unat c mod 64 = unat c"
    by (simp add: split_digit byte_digits)
qed

lemma b64_group_encode_two:
  fixes a b :: byte
  shows "take 2 (b64_group (unat a div 4) (unat a mod 4 * 16 + unat b div 16)
           (unat b mod 16 * 4) 0) = [a, b]"
proof -
  have g: "b64_group (unat a div 4) (unat a mod 4 * 16 + unat b div 16) (unat b mod 16 * 4) 0
          = [a, b, 0]"
  proof (rule b64_group_bytes)
    show "unat a div 4 * 4 + (unat a mod 4 * 16 + unat b div 16) div 16 = unat a"
      by (simp add: split_digit byte_digits)
    show "(unat a mod 4 * 16 + unat b div 16) mod 16 * 16 + unat b mod 16 * 4 div 4 = unat b"
      by (simp add: split_digit byte_digits)
    show "unat b mod 16 * 4 mod 4 * 64 + 0 = unat (0 :: byte)"
      by simp
  qed
  show ?thesis unfolding g by simp
qed

lemma b64_group_encode_one:
  fixes a :: byte
  shows "take (Suc 0) (b64_group (unat a div 4) (unat a mod 4 * 16) 0 0) = [a]"
proof -
  have g: "b64_group (unat a div 4) (unat a mod 4 * 16) 0 0 = [a, 0, 0]"
  proof (rule b64_group_bytes)
    show "unat a div 4 * 4 + unat a mod 4 * 16 div 16 = unat a"
      by simp
    show "unat a mod 4 * 16 mod 16 * 16 + 0 div 4 = unat (0 :: byte)"
      by simp
    show "0 mod 4 * 64 + 0 = unat (0 :: byte)"
      by simp
  qed
  show ?thesis unfolding g by simp
qed

lemma b64decode_b64encode: "b64decode (b64encode bs) = Inr bs"
proof (induction bs rule: b64encode.induct)
  case 1
  then show ?case by simp
next
  case (2 a)
  show ?case
    by (simp add: b64_index_char sextets b64_group_encode_one)
next
  case (3 a b)
  show ?case
    by (simp add: b64_index_char b64_char_not_pad sextets b64_group_encode_two)
next
  case (4 a b c rest)
  show ?case
    using 4 by (simp add: b64_index_char b64_char_not_pad sextets b64_group_encode)
qed

lemma length_uint_be: "length (uint_be w n) = w"
  by (simp add: uint_be_def length_uint_le)

lemma from_be_uint_be:
  assumes "0 \<le> n" and "n < 256 ^ w"
  shows "from_be (uint_be w n) = n"
  using assms by (simp add: from_be_def uint_be_def from_le_uint_le_fits)

lemma uint_be_one: "0 \<le> n \<Longrightarrow> n < 256 \<Longrightarrow> uint_be (Suc 0) n = [of_int n]"
  by (simp add: uint_be_def)

lemma decode_compact_fields:
  fixes r_bytes s_bytes :: bytes
  assumes "length r_bytes = 32" and "length s_bytes = 32"
    and "27 \<le> marker" and "marker \<le> 34"
  shows "decode_compact (of_int marker # r_bytes @ s_bytes) =
           Inr ((from_be r_bytes, from_be s_bytes,
                 marker - 27 - (if 31 \<le> marker then 4 else 0)), 31 \<le> marker)"
proof -
  have m: "uint (of_int marker :: byte) = marker"
    using assms(3,4) by (simp add: uint_byte_of_int)
  have "py_slice 1 33 (of_int marker # r_bytes @ s_bytes) = r_bytes"
    "py_slice 33 65 (of_int marker # r_bytes @ s_bytes) = s_bytes"
    using assms(1,2) by (simp_all add: py_slice_def)
  then show ?thesis
    using assms by (simp add: decode_compact_def m Let_def)
qed

lemma serialize_recoverable_bytes:
  assumes "0 \<le> r" and "r < 2 ^ 256" and "0 \<le> s" and "s < 2 ^ 256"
    and "recovery_id \<in> {0, 1, 2, 3}"
  shows "serialize_recoverable (r, s, recovery_id) =
           Inr (of_int (27 + recovery_id) # uint_be 32 r @ uint_be 32 s)"
proof -
  have "0 \<le> 27 + recovery_id" "27 + recovery_id < 256"
    using assms(5) by auto
  then show ?thesis
    using assms(1-4)
    by (simp add: serialize_recoverable_def encode_uint_be_def recovery_marker_def uint_be_one)
qed

text \<open>
  C9, as the test has it. For every \<open>r\<close> and \<open>s\<close> that fit in 32 bytes and every recovery id
  in \<open>{0, 1, 2, 3}\<close>, the serializer, given \<open>(r, s, recovery_id)\<close> alone, returns 65 bytes
  that deserialize to \<open>(r, s, recovery_id)\<close>; for either compression flag, stringify of
  these bytes and the flag is the base64 text of the compact form (the marker
  \<open>27 + recovery_id + (4 if compressed)\<close>, then \<open>r\<close> and \<open>s\<close> as 32 bytes big-endian each),
  and unstringify of that text returns the same 65 bytes and the flag.
\<close>

theorem recoverable_round_trip:
  assumes "0 \<le> r" and "r < 2 ^ 256" and "0 \<le> s" and "s < 2 ^ 256"
    and "recovery_id \<in> {0, 1, 2, 3}"
  shows "\<exists>serialized.
           serialize_recoverable (r, s, recovery_id) = Inr serialized
         \<and> length serialized = 65
         \<and> deserialize_recoverable serialized = Inr (r, s, recovery_id)
         \<and> stringify_recoverable serialized compressed =
             b64encode (of_int (27 + recovery_id + (if compressed then 4 else 0))
                        # uint_be 32 r @ uint_be 32 s)
         \<and> unstringify_recoverable (stringify_recoverable serialized compressed) =
             Inr (serialized, compressed)"
proof -
  let ?ser = "of_int (27 + recovery_id) # uint_be 32 r @ uint_be 32 s :: bytes"
  let ?m = "27 + recovery_id + (if compressed then 4 else 0)"
  let ?raw = "of_int ?m # uint_be 32 r @ uint_be 32 s :: bytes"
  have ser: "serialize_recoverable (r, s, recovery_id) = Inr ?ser"
    using assms by (rule serialize_recoverable_bytes)
  have vals: "from_be (uint_be 32 r) = r" "from_be (uint_be 32 s) = s"
    using assms(1-4) by (simp_all add: from_be_uint_be)
  have plain: "27 \<le> 27 + recovery_id" "27 + recovery_id \<le> 34" "\<not> 31 \<le> 27 + recovery_id"
    using assms(5) by auto
  have "decode_compact ?ser = Inr ((r, s, recovery_id), False)"
    using decode_compact_fields [OF length_uint_be length_uint_be plain(1,2), of r s]
      vals plain(3)
    by simp
  then have des: "deserialize_recoverable ?ser = Inr (r, s, recovery_id)"
    by (simp add: deserialize_recoverable_def)
  have marked: "27 \<le> ?m" "?m \<le> 34" "(31 \<le> ?m) = compressed"
    "?m - 27 - (if compressed then 4 else 0) = recovery_id"
    using assms(5) by auto
  have dec: "decode_compact ?raw = Inr ((r, s, recovery_id), compressed)"
    using decode_compact_fields [OF length_uint_be length_uint_be marked(1,2), of r s] vals
    unfolding marked(3,4) by simp
  define raw where "raw = ?raw"
  define ser where "ser = ?ser"
  have enc: "stringify_recoverable ser compressed = b64encode raw"
    unfolding raw_def ser_def by (simp add: stringify_recoverable_def with_compression_flag_def)
  have strip: "(hd raw - (if compressed then 4 else 0)) # tl raw = ser"
    unfolding raw_def ser_def by simp
  have "unstringify_recoverable (b64encode raw) =
          Inr ((hd raw - (if compressed then 4 else 0)) # tl raw, compressed)"
    using dec [folded raw_def]
    by (simp add: unstringify_recoverable_def b64decode_b64encode)
  then have "unstringify_recoverable (stringify_recoverable ser compressed)
               = Inr (ser, compressed)"
    unfolding enc strip .
  moreover note enc
  moreover have "length ser = 65"
    unfolding ser_def by (simp add: length_uint_be)
  ultimately show ?thesis
    using ser des unfolding raw_def ser_def by blast
qed

theorem recoverable_round_trip_witness:
  "(\<exists>serialized.
      serialize_recoverable (rec_r1, rec_s1, 1) = Inr serialized
    \<and> length serialized = 65
    \<and> deserialize_recoverable serialized = Inr (rec_r1, rec_s1, 1)
    \<and> stringify_recoverable serialized True = rec_sig1
    \<and> unstringify_recoverable rec_sig1 = Inr (serialized, True))
   \<and> (\<exists>serialized.
      serialize_recoverable (rec_r2, rec_s2, 0) = Inr serialized
    \<and> length serialized = 65
    \<and> deserialize_recoverable serialized = Inr (rec_r2, rec_s2, 0)
    \<and> stringify_recoverable serialized False = rec_sig2
    \<and> unstringify_recoverable rec_sig2 = Inr (serialized, False))"
proof
  have range1: "0 \<le> rec_r1" "rec_r1 < 2 ^ 256" "0 \<le> rec_s1" "rec_s1 < 2 ^ 256"
    "(1 :: int) \<in> {0, 1, 2, 3}"
    by (simp_all add: rec_r1_def rec_s1_def)
  have text1: "b64encode (of_int (27 + 1 + (if True then 4 else 0))
                          # uint_be 32 rec_r1 @ uint_be 32 rec_s1) = rec_sig1"
    by code_simp
  from recoverable_round_trip [OF range1, where compressed = True]
  show "\<exists>serialized.
      serialize_recoverable (rec_r1, rec_s1, 1) = Inr serialized
    \<and> length serialized = 65
    \<and> deserialize_recoverable serialized = Inr (rec_r1, rec_s1, 1)
    \<and> stringify_recoverable serialized True = rec_sig1
    \<and> unstringify_recoverable rec_sig1 = Inr (serialized, True)"
    unfolding text1 by metis
next
  have range2: "0 \<le> rec_r2" "rec_r2 < 2 ^ 256" "0 \<le> rec_s2" "rec_s2 < 2 ^ 256"
    "(0 :: int) \<in> {0, 1, 2, 3}"
    by (simp_all add: rec_r2_def rec_s2_def)
  have text2: "b64encode (of_int (27 + 0 + (if False then 4 else 0))
                          # uint_be 32 rec_r2 @ uint_be 32 rec_s2) = rec_sig2"
    by code_simp
  from recoverable_round_trip [OF range2, where compressed = False]
  show "\<exists>serialized.
      serialize_recoverable (rec_r2, rec_s2, 0) = Inr serialized
    \<and> length serialized = 65
    \<and> deserialize_recoverable serialized = Inr (rec_r2, rec_s2, 0)
    \<and> stringify_recoverable serialized False = rec_sig2
    \<and> unstringify_recoverable rec_sig2 = Inr (serialized, False)"
    unfolding text2 by metis
qed

text \<open>
  C9 as stated has the serializer produce the compact form with the compression flag in
  its marker. The first signature of \<open>test_recoverable_serialization\<close> is compressed with
  recovery id 1: its base64 text decodes to the marker 32, \<open>r\<close> and \<open>s\<close>; unstringify
  returns what the serializer gives for \<open>(r, s, 1)\<close> (line 127 of the test), and these
  65 bytes are not the compact form with the marker 32: the flag is beside them.
\<close>

theorem serialized_form_has_no_compression_flag:
  "b64decode rec_sig1 = Inr (of_int (27 + 1 + 4) # uint_be 32 rec_r1 @ uint_be 32 rec_s1)
   \<and> unstringify_recoverable rec_sig1 =
       map_sum id (\<lambda>serialized. (serialized, True)) (serialize_recoverable (rec_r1, rec_s1, 1))
   \<and> serialize_recoverable (rec_r1, rec_s1, 1)
       \<noteq> Inr (of_int (27 + 1 + 4) # uint_be 32 rec_r1 @ uint_be 32 rec_s1)"
  by code_simp

text \<open>The vectors of \<open>test_recoverable_serialization\<close> (lines 125 to 129 and 135 to
  139): the serializer on the triple alone gives the first component of unstringify,
  for the compressed signature and for the uncompressed one.\<close>

lemma recoverable_test_vectors:
  "unstringify_recoverable rec_sig1 =
     map_sum id (\<lambda>serialized. (serialized, True)) (serialize_recoverable (rec_r1, rec_s1, 1))"
  "map_sum id deserialize_recoverable (serialize_recoverable (rec_r1, rec_s1, 1))
     = Inr (Inr (rec_r1, rec_s1, 1))"
  "map_sum id (\<lambda>serialized. stringify_recoverable serialized True)
     (serialize_recoverable (rec_r1, rec_s1, 1)) = Inr rec_sig1"
  "unstringify_recoverable rec_sig2 =
     map_sum id (\<lambda>serialized. (serialized, False)) (serialize_recoverable (rec_r2, rec_s2, 0))"
  "map_sum id deserialize_recoverable (serialize_recoverable (rec_r2, rec_s2, 0))
     = Inr (Inr (rec_r2, rec_s2, 0))"
  "map_sum id (\<lambda>serialized. stringify_recoverable serialized False)
     (serialize_recoverable (rec_r2, rec_s2, 0)) = Inr rec_sig2"
  by code_simp+

end
